theory Spec2Isabelle
  imports Main "HOL-Library.Sublist"
begin

section \<open>Data model\<close>

text \<open>
  The embedding follows \<^verbatim>\<open>main.go\<close>. Go strings are byte sequences and are
  modelled as \<^typ>\<open>string\<close>; a slice is a list, and a nil slice and an empty slice are
  both the empty list. A Go function returning \<^verbatim>\<open>(T, error)\<close> returns a pair whose
  second component is \<^term>\<open>None\<close> for \<^verbatim>\<open>nil\<close>.
\<close>

text \<open>A Go error value; \<^verbatim>\<open>%v\<close> prints its message.\<close>

datatype error = Error string

fun error_text :: "error \<Rightarrow> string" where
  "error_text (Error msg) = msg"

text \<open>\<^verbatim>\<open>type ContainerInfo struct\<close>\<close>

record ContainerInfo =
  Namespace :: string
  PodName :: string
  Container :: string
  CommandExec :: string

subsection \<open>The objects of the cluster API that the program reads\<close>

text \<open>
  Of \<^verbatim>\<open>v1.Namespace\<close>, \<^verbatim>\<open>v1.Pod\<close> and \<^verbatim>\<open>v1.Container\<close> the program reads the
  \<^verbatim>\<open>Name\<close> only, and of \<^verbatim>\<open>v1.PodSpec\<close> the \<^verbatim>\<open>Containers\<close> list; the init and
  ephemeral container lists are the other two container lists a pod spec carries.
\<close>

record v1_Namespace =
  ns_Name :: string

record v1_Container =
  container_Name :: string

record v1_PodSpec =
  InitContainers :: "v1_Container list"
  Containers :: "v1_Container list"
  EphemeralContainers :: "v1_Container list"

record v1_Pod =
  pod_Name :: string
  pod_Spec :: v1_PodSpec

text \<open>\<^verbatim>\<open>v1.PodExecOptions\<close>, the parameters of the exec subresource.\<close>

record PodExecOptions =
  exec_Command :: "string list"
  exec_Container :: string
  exec_Stdin :: bool
  exec_Stdout :: bool
  exec_Stderr :: bool
  exec_TTY :: bool

text \<open>
  The request that \<^verbatim>\<open>execCommandInContainer\<close> builds with
  \<^verbatim>\<open>Post().Resource("pods").Name(podName).Namespace(namespace).SubResource("exec")\<close> and
  \<^verbatim>\<open>VersionedParams(option, ...)\<close>; its URL is what the executor is created for.
\<close>

record exec_request =
  req_Resource :: string
  req_Name :: string
  req_Namespace :: string
  req_SubResource :: string
  req_Params :: PodExecOptions

text \<open>
  \<^verbatim>\<open>remotecommand.StreamOptions\<close>: which of the three streams the caller attached, and
  whether a terminal is requested.
\<close>

record StreamOptions =
  so_Stdin :: bool
  so_Stdout :: bool
  so_Stderr :: bool
  so_Tty :: bool

text \<open>
  An executor is described by what its \<^verbatim>\<open>Stream\<close> call does: the text it writes to
  the attached standard-output writer, the text it writes to the attached standard-error
  writer, and the error it returns.
\<close>

record executor =
  writes_Stdout :: string
  writes_Stderr :: string
  Stream_err :: "error option"

subsection \<open>The cluster session\<close>

text \<open>
  The cluster is outside the program. One run is a single pass over the cluster's
  current state, so the session is a snapshot: each API call answers as a function of
  its request, and every call returns (the program sets no timeout; a call that blocks
  forever is outside the model). \<^verbatim>\<open>*kubernetes.Clientset\<close> answers the list and get calls,
  \<^verbatim>\<open>*rest.Config\<close> decides what \<^verbatim>\<open>remotecommand.NewSPDYExecutor\<close> returns.
\<close>

record clientset =
  Namespaces_List :: "error + v1_Namespace list"
  Pods_List :: "string \<Rightarrow> error + v1_Pod list"
  Pods_Get :: "string \<Rightarrow> string \<Rightarrow> error + v1_Pod"

record rest_config =
  NewSPDYExecutor :: "string \<Rightarrow> exec_request \<Rightarrow> error + executor"

subsection \<open>Effects: the calls made against the cluster and the lines printed\<close>

datatype api_call =
    NamespacesListCall
  | PodsListCall string
  | PodsGetCall string string
  | NewSPDYExecutorCall string exec_request
  | StreamCall exec_request StreamOptions

record io =
  calls :: "api_call list"
  printed :: "string list"

definition call :: "api_call \<Rightarrow> io \<Rightarrow> io" where
  "call c s = s\<lparr>calls := calls s @ [c]\<rparr>"

definition Printf :: "string \<Rightarrow> io \<Rightarrow> io" where
  "Printf line s = s\<lparr>printed := printed s @ [line]\<rparr>"

section \<open>The enumerators\<close>

text \<open>\<^verbatim>\<open>func containsString(slice []string, str string) bool\<close>\<close>

fun containsString :: "string list \<Rightarrow> string \<Rightarrow> bool" where
  "containsString [] str = False"
| "containsString (s # slice) str = (if s = str then True else containsString slice str)"

text \<open>The loop of \<^verbatim>\<open>listNamespaces\<close> over \<^verbatim>\<open>namespaceList.Items\<close>.\<close>

fun listNamespaces_loop :: "string list \<Rightarrow> v1_Namespace list \<Rightarrow> string list \<Rightarrow> string list" where
  "listNamespaces_loop excludeNamespaces [] namespaces = namespaces"
| "listNamespaces_loop excludeNamespaces (ns # items) namespaces =
     (if \<not> containsString excludeNamespaces (ns_Name ns)
      then listNamespaces_loop excludeNamespaces items (namespaces @ [ns_Name ns])
      else listNamespaces_loop excludeNamespaces items namespaces)"

definition listNamespaces ::
  "clientset \<Rightarrow> string list \<Rightarrow> io \<Rightarrow> (string list \<times> error option) \<times> io" where
  "listNamespaces cs excludeNamespaces s =
     (let s1 = call NamespacesListCall s in
      case Namespaces_List cs of
        Inl err \<Rightarrow> (([], Some err), s1)
      | Inr items \<Rightarrow> ((listNamespaces_loop excludeNamespaces items [], None), s1))"

text \<open>The loop of \<^verbatim>\<open>listPods\<close> over \<^verbatim>\<open>podList.Items\<close>.\<close>

fun listPods_loop :: "v1_Pod list \<Rightarrow> string list \<Rightarrow> string list" where
  "listPods_loop [] podNames = podNames"
| "listPods_loop (pod # items) podNames = listPods_loop items (podNames @ [pod_Name pod])"

definition listPods :: "clientset \<Rightarrow> string \<Rightarrow> io \<Rightarrow> (string list \<times> error option) \<times> io" where
  "listPods cs namespace s =
     (let s1 = call (PodsListCall namespace) s in
      case Pods_List cs namespace of
        Inl err \<Rightarrow> (([], Some err), s1)
      | Inr items \<Rightarrow> ((listPods_loop items [], None), s1))"

text \<open>The loop of \<^verbatim>\<open>listContainers\<close> over \<^verbatim>\<open>pod.Spec.Containers\<close>.\<close>

fun listContainers_loop :: "v1_Container list \<Rightarrow> string list \<Rightarrow> string list" where
  "listContainers_loop [] containerNames = containerNames"
| "listContainers_loop (container # rest) containerNames =
     listContainers_loop rest (containerNames @ [container_Name container])"

definition listContainers ::
  "clientset \<Rightarrow> string \<Rightarrow> string \<Rightarrow> io \<Rightarrow> (string list \<times> error option) \<times> io" where
  "listContainers cs namespace podName s =
     (let s1 = call (PodsGetCall namespace podName) s in
      case Pods_Get cs namespace podName of
        Inl err \<Rightarrow> (([], Some err), s1)
      | Inr pod \<Rightarrow> ((listContainers_loop (Containers (pod_Spec pod)) [], None), s1))"

section \<open>The remote probe executor\<close>

text \<open>
  \<^verbatim>\<open>func execCommandInContainer(clientset, config, namespace, podName, containerName,
  command string) (string, error)\<close>. The request is built first; creating the executor
  can fail, and so can the stream. Both string builders start empty; on a stream error
  the function returns the empty string, whatever was written to them.
\<close>

definition exec_option :: "string \<Rightarrow> string \<Rightarrow> PodExecOptions" where
  "exec_option containerName command =
     \<lparr>exec_Command = [''sh'', ''-c'', command],
      exec_Container = containerName,
      exec_Stdin = False,
      exec_Stdout = True,
      exec_Stderr = True,
      exec_TTY = False\<rparr>"

definition exec_req :: "string \<Rightarrow> string \<Rightarrow> string \<Rightarrow> string \<Rightarrow> exec_request" where
  "exec_req namespace podName containerName command =
     \<lparr>req_Resource = ''pods'',
      req_Name = podName,
      req_Namespace = namespace,
      req_SubResource = ''exec'',
      req_Params = exec_option containerName command\<rparr>"

text \<open>
  \<^verbatim>\<open>remotecommand.StreamOptions{Stdout: &stdout, Stderr: &stderr}\<close>: two separate
  builders are attached, no input stream, no terminal.
\<close>

definition stream_options :: StreamOptions where
  "stream_options = \<lparr>so_Stdin = False, so_Stdout = True, so_Stderr = True, so_Tty = False\<rparr>"

definition execCommandInContainer ::
  "clientset \<Rightarrow> rest_config \<Rightarrow> string \<Rightarrow> string \<Rightarrow> string \<Rightarrow> string \<Rightarrow> io
     \<Rightarrow> (string \<times> error option) \<times> io" where
  "execCommandInContainer cs config namespace podName containerName command s =
     (let req = exec_req namespace podName containerName command;
          s1 = call (NewSPDYExecutorCall ''POST'' req) s in
      case NewSPDYExecutor config ''POST'' req of
        Inl err \<Rightarrow> (('''', Some err), s1)
      | Inr exec \<Rightarrow>
          (let s2 = call (StreamCall req stream_options) s1;
               stdout = writes_Stdout exec;
               stderr = writes_Stderr exec in
           case Stream_err exec of
             Some err \<Rightarrow> (('''', Some err), s2)
           | None \<Rightarrow> ((stdout, None), s2)))"

section \<open>Traversal and classification\<close>

text \<open>
  \<^verbatim>\<open>strings.Contains(s, substr)\<close> of the Go standard library: whether \<open>substr\<close>
  occurs within \<open>s\<close> as a contiguous run of bytes.
\<close>

fun strings_Contains :: "string \<Rightarrow> string \<Rightarrow> bool" where
  "strings_Contains [] substr = (substr = [])"
| "strings_Contains (c # s) substr = (prefix substr (c # s) \<or> strings_Contains s substr)"

text \<open>
  The three lines the traversal prints with \<^verbatim>\<open>fmt.Printf\<close>:
  \<^verbatim>\<open>"Error listing pods in namespace %s: %v\n"\<close>,
  \<^verbatim>\<open>"Error listing containers in pod %s: %v\n"\<close> and
  \<^verbatim>\<open>"Error running 'whoami' command in container %s: %v\n"\<close>.
\<close>

definition line_listing_pods :: "string \<Rightarrow> error \<Rightarrow> string" where
  "line_listing_pods namespace err =
     ''Error listing pods in namespace '' @ namespace @ '': '' @ error_text err @ [CHR 0x0A]"

definition line_listing_containers :: "string \<Rightarrow> error \<Rightarrow> string" where
  "line_listing_containers pod err =
     ''Error listing containers in pod '' @ pod @ '': '' @ error_text err @ [CHR 0x0A]"

definition line_running_whoami :: "string \<Rightarrow> error \<Rightarrow> string" where
  "line_running_whoami container err =
     ''Error running 'whoami' command in container '' @ container @ '': '' @ error_text err @
     [CHR 0x0A]"

text \<open>
  The local variables \<^verbatim>\<open>rootContainers\<close> and \<^verbatim>\<open>errorContainers\<close> of
  \<^verbatim>\<open>findContainersWithErrors\<close>, together with the effects so far.
\<close>

type_synonym acc = "ContainerInfo list \<times> ContainerInfo list \<times> io"

text \<open>
  The body of the innermost loop, for one container. \<^verbatim>\<open>continue\<close> ends the body, so
  a failed probe never reaches the test of the output.
\<close>

definition probe_container ::
  "clientset \<Rightarrow> rest_config \<Rightarrow> string \<Rightarrow> string \<Rightarrow> string \<Rightarrow> acc \<Rightarrow> acc" where
  "probe_container cs config namespace pod container st =
     (case st of (rootContainers, errorContainers, s) \<Rightarrow>
       (let command = ''whoami'' in
        case execCommandInContainer cs config namespace pod container command s of
          ((output, Some err), s1) \<Rightarrow>
            (rootContainers,
             errorContainers @
               [\<lparr>Namespace = namespace, PodName = pod, Container = container,
                 CommandExec = command\<rparr>],
             Printf (line_running_whoami container err) s1)
        | ((output, None), s1) \<Rightarrow>
            (if strings_Contains output ''root''
             then (rootContainers @
                     [\<lparr>Namespace = namespace, PodName = pod, Container = container,
                       CommandExec = command\<rparr>],
                   errorContainers, s1)
             else (rootContainers, errorContainers, s1))))"

text \<open>\<^verbatim>\<open>for _, container := range containers\<close>\<close>

fun containers_loop ::
  "clientset \<Rightarrow> rest_config \<Rightarrow> string \<Rightarrow> string \<Rightarrow> string list \<Rightarrow> acc \<Rightarrow> acc" where
  "containers_loop cs config namespace pod [] st = st"
| "containers_loop cs config namespace pod (container # containers) st =
     containers_loop cs config namespace pod containers
       (probe_container cs config namespace pod container st)"

text \<open>The body of the loop over the pods of a namespace.\<close>

definition visit_pod :: "clientset \<Rightarrow> rest_config \<Rightarrow> string \<Rightarrow> string \<Rightarrow> acc \<Rightarrow> acc" where
  "visit_pod cs config namespace pod st =
     (case st of (rootContainers, errorContainers, s) \<Rightarrow>
       (case listContainers cs namespace pod s of
          ((containers, Some err), s1) \<Rightarrow>
            (rootContainers, errorContainers,
             Printf (line_listing_containers pod err) s1)
        | ((containers, None), s1) \<Rightarrow>
            containers_loop cs config namespace pod containers
              (rootContainers, errorContainers, s1)))"

text \<open>\<^verbatim>\<open>for _, pod := range pods\<close>\<close>

fun pods_loop :: "clientset \<Rightarrow> rest_config \<Rightarrow> string \<Rightarrow> string list \<Rightarrow> acc \<Rightarrow> acc" where
  "pods_loop cs config namespace [] st = st"
| "pods_loop cs config namespace (pod # pods) st =
     pods_loop cs config namespace pods (visit_pod cs config namespace pod st)"

text \<open>The body of the loop over the namespaces.\<close>

definition visit_namespace :: "clientset \<Rightarrow> rest_config \<Rightarrow> string \<Rightarrow> acc \<Rightarrow> acc" where
  "visit_namespace cs config namespace st =
     (case st of (rootContainers, errorContainers, s) \<Rightarrow>
       (case listPods cs namespace s of
          ((pods, Some err), s1) \<Rightarrow>
            (rootContainers, errorContainers,
             Printf (line_listing_pods namespace err) s1)
        | ((pods, None), s1) \<Rightarrow>
            pods_loop cs config namespace pods (rootContainers, errorContainers, s1)))"

text \<open>\<^verbatim>\<open>for _, namespace := range namespaces\<close>\<close>

fun namespaces_loop :: "clientset \<Rightarrow> rest_config \<Rightarrow> string list \<Rightarrow> acc \<Rightarrow> acc" where
  "namespaces_loop cs config [] st = st"
| "namespaces_loop cs config (namespace # namespaces) st =
     namespaces_loop cs config namespaces (visit_namespace cs config namespace st)"

text \<open>
  \<^verbatim>\<open>func findContainersWithErrors(clientset, config) ([]ContainerInfo, []ContainerInfo,
  error)\<close>
\<close>

definition findContainersWithErrors ::
  "clientset \<Rightarrow> rest_config \<Rightarrow> io
     \<Rightarrow> (ContainerInfo list \<times> ContainerInfo list \<times> error option) \<times> io" where
  "findContainersWithErrors cs config s =
     (let excludeNamespaces = [''kube-system'', ''kube-public'', ''kube-node-lease''] in
      case listNamespaces cs excludeNamespaces s of
        ((namespaces, Some err), s1) \<Rightarrow> (([], [], Some err), s1)
      | ((namespaces, None), s1) \<Rightarrow>
          (case namespaces_loop cs config namespaces ([], [], s1) of
             (rootContainers, errorContainers, s2) \<Rightarrow>
               ((rootContainers, errorContainers, None), s2)))"

section \<open>Notions used to state the properties\<close>

text \<open>
  The effects of a call are appended to the effects so far, so every function of the
  program can be described by what it does from the empty state. \<open>io_append\<close> puts the
  effects of a second run behind those of a first.
\<close>

definition io_empty :: io where
  "io_empty = \<lparr>calls = [], printed = []\<rparr>"

definition io_append :: "io \<Rightarrow> io \<Rightarrow> io" where
  "io_append s t = \<lparr>calls = calls s @ calls t, printed = printed s @ printed t\<rparr>"

definition acc_empty :: acc where
  "acc_empty = ([], [], io_empty)"

fun acc_append :: "acc \<Rightarrow> acc \<Rightarrow> acc" where
  "acc_append (r1, e1, s1) (r2, e2, s2) = (r1 @ r2, e1 @ e2, io_append s1 s2)"

definition roots_of :: "acc \<Rightarrow> ContainerInfo list" where
  "roots_of st = fst st"

definition errors_of :: "acc \<Rightarrow> ContainerInfo list" where
  "errors_of st = fst (snd st)"

definition io_of :: "acc \<Rightarrow> io" where
  "io_of st = snd (snd st)"

text \<open>The record the traversal builds for a container.\<close>

definition whoami_info :: "string \<Rightarrow> string \<Rightarrow> string \<Rightarrow> ContainerInfo" where
  "whoami_info ns pod c =
     \<lparr>Namespace = ns, PodName = pod, Container = c, CommandExec = ''whoami''\<rparr>"

text \<open>
  What the probe of a container returns and which calls it makes; \<open>probe_root\<close> is a
  probe that returned no error and an output with \<open>root\<close> in it, \<open>probe_failed\<close> one
  that returned an error.
\<close>

definition probe_result ::
  "clientset \<Rightarrow> rest_config \<Rightarrow> string \<Rightarrow> string \<Rightarrow> string \<Rightarrow> string \<times> error option" where
  "probe_result cs config ns pod c =
     fst (execCommandInContainer cs config ns pod c ''whoami'' io_empty)"

definition probe_calls ::
  "clientset \<Rightarrow> rest_config \<Rightarrow> string \<Rightarrow> string \<Rightarrow> string \<Rightarrow> api_call list" where
  "probe_calls cs config ns pod c =
     calls (snd (execCommandInContainer cs config ns pod c ''whoami'' io_empty))"

definition probe_root :: "clientset \<Rightarrow> rest_config \<Rightarrow> string \<Rightarrow> string \<Rightarrow> string \<Rightarrow> bool" where
  "probe_root cs config ns pod c =
     (snd (probe_result cs config ns pod c) = None \<and>
      strings_Contains (fst (probe_result cs config ns pod c)) ''root'')"

definition probe_failed :: "clientset \<Rightarrow> rest_config \<Rightarrow> string \<Rightarrow> string \<Rightarrow> string \<Rightarrow> bool" where
  "probe_failed cs config ns pod c = (snd (probe_result cs config ns pod c) \<noteq> None)"

text \<open>
  The containers the traversal reaches: the namespace is in the cluster's list and not
  one of the three excluded names, the pod is in the successful pod list of the
  namespace, and the container is in the \<^verbatim>\<open>Spec.Containers\<close> of the pod as the get call
  returns it.
\<close>

definition visited_namespaces :: "clientset \<Rightarrow> string list" where
  "visited_namespaces cs =
     (case Namespaces_List cs of
        Inl err \<Rightarrow> []
      | Inr items \<Rightarrow>
          filter (\<lambda>n. n \<notin> set [''kube-system'', ''kube-public'', ''kube-node-lease''])
            (map ns_Name items))"

definition pod_listed :: "clientset \<Rightarrow> string \<Rightarrow> string \<Rightarrow> bool" where
  "pod_listed cs ns pod =
     (case Pods_List cs ns of Inl err \<Rightarrow> False | Inr items \<Rightarrow> pod \<in> set (map pod_Name items))"

definition container_listed :: "clientset \<Rightarrow> string \<Rightarrow> string \<Rightarrow> string \<Rightarrow> bool" where
  "container_listed cs ns pod c =
     (case Pods_Get cs ns pod of
        Inl err \<Rightarrow> False
      | Inr p \<Rightarrow> c \<in> set (map container_Name (Containers (pod_Spec p))))"

definition reached :: "clientset \<Rightarrow> string \<Rightarrow> string \<Rightarrow> string \<Rightarrow> bool" where
  "reached cs ns pod c =
     (ns \<in> set (visited_namespaces cs) \<and> pod_listed cs ns pod \<and> container_listed cs ns pod c)"

text \<open>The calls a run of the traversal adds to the calls made before it.\<close>

definition new_calls :: "io \<Rightarrow> io \<Rightarrow> api_call list" where
  "new_calls s s' = drop (length (calls s)) (calls s')"

text \<open>The namespace a call is made against; listing the namespaces has none.\<close>

fun call_namespace :: "api_call \<Rightarrow> string option" where
  "call_namespace NamespacesListCall = None"
| "call_namespace (PodsListCall ns) = Some ns"
| "call_namespace (PodsGetCall ns pod) = Some ns"
| "call_namespace (NewSPDYExecutorCall method req) = Some (req_Namespace req)"
| "call_namespace (StreamCall req opts) = Some (req_Namespace req)"


text \<open>The identity of a record: namespace, pod and container.\<close>

definition identity :: "ContainerInfo \<Rightarrow> string \<times> string \<times> string" where
  "identity r = (Namespace r, PodName r, Container r)"

section \<open>Example clusters\<close>

text \<open>Concrete cluster states on which the properties below are exercised.\<close>

definition mk_pod :: "string \<Rightarrow> string list \<Rightarrow> string list \<Rightarrow> v1_Pod" where
  "mk_pod name inits containers =
     \<lparr>pod_Name = name,
      pod_Spec = \<lparr>InitContainers = map (\<lambda>n. \<lparr>container_Name = n\<rparr>) inits,
                  Containers = map (\<lambda>n. \<lparr>container_Name = n\<rparr>) containers,
                  EphemeralContainers = []\<rparr>\<rparr>"

text \<open>
  Four namespaces, one of them excluded by default and one whose pods cannot be listed;
  in \<open>apps\<close> one pod that is gone when it is fetched, and one pod with an init container
  and three containers.
\<close>

definition demo_clientset :: clientset where
  "demo_clientset =
     \<lparr>Namespaces_List =
        Inr [\<lparr>ns_Name = ''default''\<rparr>, \<lparr>ns_Name = ''kube-system''\<rparr>,
             \<lparr>ns_Name = ''locked''\<rparr>, \<lparr>ns_Name = ''apps''\<rparr>],
      Pods_List = (\<lambda>ns.
        if ns = ''default'' then Inr [mk_pod ''busybox-pod'' [] [''busybox'']]
        else if ns = ''kube-system'' then Inr [mk_pod ''coredns'' [] [''coredns'']]
        else if ns = ''apps''
          then Inr [mk_pod ''gone'' [] [''old''],
                    mk_pod ''web'' [''setup''] [''nginx'', ''scratch'', ''sidecar'']]
        else Inl (Error ''forbidden'')),
      Pods_Get = (\<lambda>ns pod.
        if ns = ''default'' \<and> pod = ''busybox-pod''
          then Inr (mk_pod ''busybox-pod'' [] [''busybox''])
        else if ns = ''kube-system'' \<and> pod = ''coredns''
          then Inr (mk_pod ''coredns'' [] [''coredns''])
        else if ns = ''apps'' \<and> pod = ''web''
          then Inr (mk_pod ''web'' [''setup''] [''nginx'', ''scratch'', ''sidecar''])
        else Inl (Error ''not found''))\<rparr>"

text \<open>
  The container \<open>scratch\<close> has no \<open>sh\<close>: started directly, \<open>whoami\<close> would answer
  root there, but every other command fails to start. \<open>nginx\<close> runs as \<open>www-data\<close>,
  every other container as root.
\<close>

definition demo_config :: rest_config where
  "demo_config =
     \<lparr>NewSPDYExecutor = (\<lambda>method req.
        let c = exec_Container (req_Params req); cmd = exec_Command (req_Params req) in
        if c = ''scratch'' then
          (if cmd = [''whoami'']
           then Inr \<lparr>writes_Stdout = ''root'' @ [CHR 0x0A], writes_Stderr = [],
                     Stream_err = None\<rparr>
           else Inr \<lparr>writes_Stdout = [], writes_Stderr = ''sh: not found'',
                     Stream_err = Some (Error ''command terminated with exit code 126'')\<rparr>)
        else if cmd \<noteq> [''sh'', ''-c'', ''whoami''] then Inl (Error ''unexpected command'')
        else if c = ''nginx''
          then Inr \<lparr>writes_Stdout = ''www-data'' @ [CHR 0x0A], writes_Stderr = [],
                    Stream_err = None\<rparr>
        else Inr \<lparr>writes_Stdout = ''root'' @ [CHR 0x0A], writes_Stderr = ''warning'',
                  Stream_err = None\<rparr>)\<rparr>"

text \<open>A session whose namespace list call fails.\<close>

definition unauthorized_clientset :: clientset where
  "unauthorized_clientset = demo_clientset\<lparr>Namespaces_List := Inl (Error ''unauthorized'')\<rparr>"

text \<open>
  The end-to-end scenario: namespaces \<open>default\<close> and \<open>kube-system\<close>, the pod
  \<open>busybox-pod\<close> with the container \<open>busybox\<close> in \<open>default\<close>; \<open>kube-system\<close> holds a
  pod of its own.
\<close>

definition scenario_clientset :: clientset where
  "scenario_clientset =
     \<lparr>Namespaces_List = Inr [\<lparr>ns_Name = ''default''\<rparr>, \<lparr>ns_Name = ''kube-system''\<rparr>],
      Pods_List = (\<lambda>ns.
        if ns = ''default'' then Inr [mk_pod ''busybox-pod'' [] [''busybox'']]
        else Inr [mk_pod ''coredns'' [] [''coredns'']]),
      Pods_Get = (\<lambda>ns pod.
        if ns = ''default'' then Inr (mk_pod ''busybox-pod'' [] [''busybox''])
        else Inr (mk_pod ''coredns'' [] [''coredns'']))\<rparr>"

definition scenario_config :: rest_config where
  "scenario_config =
     \<lparr>NewSPDYExecutor = (\<lambda>method req.
        Inr \<lparr>writes_Stdout = ''root'' @ [CHR 0x0A], writes_Stderr = [], Stream_err = None\<rparr>)\<rparr>"

section \<open>Auxiliary facts\<close>

lemma containsString_iff: "containsString slice str \<longleftrightarrow> str \<in> set slice"
  by (induction slice) auto

lemma listNamespaces_loop_eq:
  "listNamespaces_loop excl items acc = acc @ filter (\<lambda>n. n \<notin> set excl) (map ns_Name items)"
  by (induction items arbitrary: acc) (auto simp: containsString_iff)

lemma listPods_loop_eq: "listPods_loop items acc = acc @ map pod_Name items"
  by (induction items arbitrary: acc) auto

lemma listContainers_loop_eq: "listContainers_loop xs acc = acc @ map container_Name xs"
  by (induction xs arbitrary: acc) auto

lemma strings_Contains_iff: "strings_Contains s substr \<longleftrightarrow> sublist substr s"
  by (induction s) (auto simp: sublist_Cons_right)

lemma io_append_empty [simp]: "io_append s io_empty = s" "io_append io_empty s = s"
  by (simp_all add: io_append_def io_empty_def)

lemma io_append_assoc: "io_append (io_append s t) u = io_append s (io_append t u)"
  by (simp add: io_append_def)

lemma call_append: "call c s = io_append s (call c io_empty)"
  by (simp add: call_def io_append_def io_empty_def)

lemma io_append_simps [simp]:
  "calls (io_append s t) = calls s @ calls t"
  "printed (io_append s t) = printed s @ printed t"
  by (simp_all add: io_append_def)

lemma acc_append_empty [simp]: "acc_append st acc_empty = st" "acc_append acc_empty st = st"
  by (cases st; simp add: acc_empty_def)+

lemma acc_append_assoc: "acc_append (acc_append a b) c = acc_append a (acc_append b c)"
  by (cases a; cases b; cases c) (simp add: io_append_assoc)

lemma acc_append_proj [simp]:
  "roots_of (acc_append a b) = roots_of a @ roots_of b"
  "errors_of (acc_append a b) = errors_of a @ errors_of b"
  "io_of (acc_append a b) = io_append (io_of a) (io_of b)"
  by (cases a; cases b; simp add: roots_of_def errors_of_def io_of_def)+

lemma proj_triple [simp]:
  "roots_of (r, e, s) = r" "errors_of (r, e, s) = e" "io_of (r, e, s) = s"
  by (simp_all add: roots_of_def errors_of_def io_of_def)

lemma fold_framed:
  assumes "\<And>x st. f x st = acc_append st (f x acc_empty)"
  shows "fold f xs st = acc_append st (fold f xs acc_empty)"
proof (induction xs arbitrary: st)
  case Nil
  show ?case by simp
next
  case (Cons x xs)
  have "fold f (x # xs) st = fold f xs (f x st)" by simp
  also have "\<dots> = acc_append (f x st) (fold f xs acc_empty)" by (rule Cons.IH)
  also have "\<dots> = acc_append (acc_append st (f x acc_empty)) (fold f xs acc_empty)"
    using assms [of x st] by simp
  also have "\<dots> = acc_append st (acc_append (f x acc_empty) (fold f xs acc_empty))"
    by (rule acc_append_assoc)
  also have "acc_append (f x acc_empty) (fold f xs acc_empty) = fold f xs (f x acc_empty)"
    by (rule Cons.IH [symmetric])
  finally show ?case by simp
qed

lemma fold_framed_Cons:
  assumes "\<And>x st. f x st = acc_append st (f x acc_empty)"
  shows "fold f (x # xs) acc_empty = acc_append (f x acc_empty) (fold f xs acc_empty)"
proof -
  have "fold f (x # xs) acc_empty = fold f xs (f x acc_empty)" by simp
  also have "\<dots> = acc_append (f x acc_empty) (fold f xs acc_empty)"
    by (rule fold_framed) (rule assms)
  finally show ?thesis .
qed

lemma containers_loop_fold:
  "containers_loop cs config ns pod cl st = fold (probe_container cs config ns pod) cl st"
  by (induction cl arbitrary: st) auto

lemma pods_loop_fold:
  "pods_loop cs config ns pl st = fold (visit_pod cs config ns) pl st"
  by (induction pl arbitrary: st) auto

lemma namespaces_loop_fold:
  "namespaces_loop cs config nsl st = fold (visit_namespace cs config) nsl st"
  by (induction nsl arbitrary: st) auto

lemma exec_frame:
  "execCommandInContainer cs config ns pod c cmd s =
     (fst (execCommandInContainer cs config ns pod c cmd io_empty),
      io_append s (snd (execCommandInContainer cs config ns pod c cmd io_empty)))"
  by (simp add: execCommandInContainer_def Let_def call_def io_append_def io_empty_def
      split: sum.splits option.splits)

lemma probe_container_frame:
  "probe_container cs config ns pod c st = acc_append st (probe_container cs config ns pod c acc_empty)"
proof (cases st)
  case (fields r e s)
  show ?thesis
    unfolding fields probe_container_def acc_empty_def
    apply (subst exec_frame)
    apply (simp add: Let_def Printf_def io_append_def io_empty_def split: prod.splits option.splits)
    done
qed

lemma exec_result_any_io:
  "fst (execCommandInContainer cs config ns pod c ''whoami'' s) = probe_result cs config ns pod c"
  unfolding probe_result_def by (subst exec_frame) simp

lemma probe_container_roots:
  "roots_of (probe_container cs config ns pod c acc_empty) =
     (if probe_root cs config ns pod c then [whoami_info ns pod c] else [])"
  by (simp add: probe_container_def acc_empty_def roots_of_def probe_root_def probe_result_def
      whoami_info_def Let_def split: prod.splits option.splits)

lemma probe_container_errors:
  "errors_of (probe_container cs config ns pod c acc_empty) =
     (if probe_failed cs config ns pod c then [whoami_info ns pod c] else [])"
  by (simp add: probe_container_def acc_empty_def errors_of_def probe_failed_def probe_result_def
      whoami_info_def Let_def split: prod.splits option.splits)

lemma probe_container_calls:
  "calls (io_of (probe_container cs config ns pod c acc_empty)) = probe_calls cs config ns pod c"
  by (simp add: probe_container_def acc_empty_def io_of_def probe_calls_def Printf_def Let_def
      split: prod.splits option.splits)

lemma fold_framed_roots:
  assumes "\<And>x st. f x st = acc_append st (f x acc_empty)"
  shows "roots_of (fold f xs acc_empty) = concat (map (\<lambda>x. roots_of (f x acc_empty)) xs)"
proof (induction xs)
  case Nil
  show ?case by (simp add: acc_empty_def roots_of_def)
next
  case (Cons x xs)
  show ?case
    by (subst fold_framed_Cons) (simp_all add: Cons.IH assms [symmetric])
qed

lemma fold_framed_errors:
  assumes "\<And>x st. f x st = acc_append st (f x acc_empty)"
  shows "errors_of (fold f xs acc_empty) = concat (map (\<lambda>x. errors_of (f x acc_empty)) xs)"
proof (induction xs)
  case Nil
  show ?case by (simp add: acc_empty_def errors_of_def)
next
  case (Cons x xs)
  show ?case
    by (subst fold_framed_Cons) (simp_all add: Cons.IH assms [symmetric])
qed

lemma fold_framed_calls:
  assumes "\<And>x st. f x st = acc_append st (f x acc_empty)"
  shows "calls (io_of (fold f xs acc_empty)) = concat (map (\<lambda>x. calls (io_of (f x acc_empty))) xs)"
proof (induction xs)
  case Nil
  show ?case by (simp add: acc_empty_def io_of_def io_empty_def)
next
  case (Cons x xs)
  show ?case
    by (subst fold_framed_Cons) (simp_all add: Cons.IH assms [symmetric])
qed

lemma containers_loop_frame:
  "containers_loop cs config ns pod cl st =
     acc_append st (containers_loop cs config ns pod cl acc_empty)"
  unfolding containers_loop_fold by (rule fold_framed) (rule probe_container_frame)

lemma listContainers_eq:
  "listContainers cs ns pod s =
     (case Pods_Get cs ns pod of
        Inl err \<Rightarrow> (([], Some err), call (PodsGetCall ns pod) s)
      | Inr p \<Rightarrow> ((map container_Name (Containers (pod_Spec p)), None), call (PodsGetCall ns pod) s))"
  by (simp add: listContainers_def Let_def listContainers_loop_eq split: sum.splits)

lemma visit_pod_eq:
  "visit_pod cs config ns pod (r, e, s) =
     (case Pods_Get cs ns pod of
        Inl err \<Rightarrow>
          (r, e, Printf (line_listing_containers pod err) (call (PodsGetCall ns pod) s))
      | Inr p \<Rightarrow>
          containers_loop cs config ns pod (map container_Name (Containers (pod_Spec p)))
            (r, e, call (PodsGetCall ns pod) s))"
  by (simp add: visit_pod_def listContainers_eq split: sum.splits)

lemma visit_pod_frame:
  "visit_pod cs config ns pod st = acc_append st (visit_pod cs config ns pod acc_empty)"
proof (cases st)
  case (fields r e s)
  show ?thesis
  proof (cases "Pods_Get cs ns pod")
    case (Inl err)
    then show ?thesis
      by (simp add: fields acc_empty_def visit_pod_eq Printf_def call_def io_append_def io_empty_def)
  next
    case (Inr p)
    let ?cl = "map container_Name (Containers (pod_Spec p))"
    have "visit_pod cs config ns pod st =
            containers_loop cs config ns pod ?cl (r, e, call (PodsGetCall ns pod) s)"
      using Inr by (simp add: fields visit_pod_eq)
    moreover have "visit_pod cs config ns pod acc_empty =
            acc_append ([], [], call (PodsGetCall ns pod) io_empty) (containers_loop cs config ns pod ?cl acc_empty)"
      using Inr containers_loop_frame [of cs config ns pod ?cl "([], [], call (PodsGetCall ns pod) io_empty)"]
      by (simp add: acc_empty_def visit_pod_eq)
    moreover have "(r, e, call (PodsGetCall ns pod) s) = acc_append st ([], [], call (PodsGetCall ns pod) io_empty)"
      by (simp add: fields call_append [symmetric])
    ultimately show ?thesis
      using containers_loop_frame [of cs config ns pod ?cl "(r, e, call (PodsGetCall ns pod) s)"]
      by (simp add: acc_append_assoc)
  qed
qed

lemma pods_loop_frame:
  "pods_loop cs config ns pl st = acc_append st (pods_loop cs config ns pl acc_empty)"
  unfolding pods_loop_fold by (rule fold_framed) (rule visit_pod_frame)

lemma listPods_eq:
  "listPods cs ns s =
     (case Pods_List cs ns of
        Inl err \<Rightarrow> (([], Some err), call (PodsListCall ns) s)
      | Inr items \<Rightarrow> ((map pod_Name items, None), call (PodsListCall ns) s))"
  by (simp add: listPods_def Let_def listPods_loop_eq split: sum.splits)

lemma visit_namespace_eq:
  "visit_namespace cs config ns (r, e, s) =
     (case Pods_List cs ns of
        Inl err \<Rightarrow> (r, e, Printf (line_listing_pods ns err) (call (PodsListCall ns) s))
      | Inr items \<Rightarrow>
          pods_loop cs config ns (map pod_Name items) (r, e, call (PodsListCall ns) s))"
  by (simp add: visit_namespace_def listPods_eq split: sum.splits)

lemma visit_namespace_frame:
  "visit_namespace cs config ns st = acc_append st (visit_namespace cs config ns acc_empty)"
proof (cases st)
  case (fields r e s)
  show ?thesis
  proof (cases "Pods_List cs ns")
    case (Inl err)
    then show ?thesis
      by (simp add: fields acc_empty_def visit_namespace_eq Printf_def call_def io_append_def
          io_empty_def)
  next
    case (Inr items)
    let ?pl = "map pod_Name items"
    let ?k = "PodsListCall ns"
    have "visit_namespace cs config ns st = pods_loop cs config ns ?pl (r, e, call ?k s)"
      using Inr by (simp add: fields visit_namespace_eq)
    moreover have "visit_namespace cs config ns acc_empty =
            acc_append ([], [], call ?k io_empty) (pods_loop cs config ns ?pl acc_empty)"
      using Inr pods_loop_frame [of cs config ns ?pl "([], [], call ?k io_empty)"]
      by (simp add: acc_empty_def visit_namespace_eq)
    moreover have "(r, e, call ?k s) = acc_append st ([], [], call ?k io_empty)"
      by (simp add: fields call_append [symmetric])
    ultimately show ?thesis
      using pods_loop_frame [of cs config ns ?pl "(r, e, call ?k s)"]
      by (simp add: acc_append_assoc)
  qed
qed

lemma namespaces_loop_frame:
  "namespaces_loop cs config nsl st = acc_append st (namespaces_loop cs config nsl acc_empty)"
  unfolding namespaces_loop_fold by (rule fold_framed) (rule visit_namespace_frame)

subsection \<open>What each level contributes\<close>

lemma containers_loop_roots:
  "r \<in> set (roots_of (containers_loop cs config ns pod cl acc_empty)) \<longleftrightarrow>
     (\<exists>c \<in> set cl. probe_root cs config ns pod c \<and> r = whoami_info ns pod c)"
  unfolding containers_loop_fold
  by (subst fold_framed_roots, rule probe_container_frame) (auto simp: probe_container_roots)

lemma containers_loop_errors:
  "r \<in> set (errors_of (containers_loop cs config ns pod cl acc_empty)) \<longleftrightarrow>
     (\<exists>c \<in> set cl. probe_failed cs config ns pod c \<and> r = whoami_info ns pod c)"
  unfolding containers_loop_fold
  by (subst fold_framed_errors, rule probe_container_frame) (auto simp: probe_container_errors)

lemma containers_loop_calls:
  "k \<in> set (calls (io_of (containers_loop cs config ns pod cl acc_empty))) \<longleftrightarrow>
     (\<exists>c \<in> set cl. k \<in> set (probe_calls cs config ns pod c))"
  unfolding containers_loop_fold
  by (subst fold_framed_calls, rule probe_container_frame) (auto simp: probe_container_calls)

lemma visit_pod_empty:
  "visit_pod cs config ns pod acc_empty =
     (case Pods_Get cs ns pod of
        Inl err \<Rightarrow>
          ([], [], Printf (line_listing_containers pod err) (call (PodsGetCall ns pod) io_empty))
      | Inr p \<Rightarrow>
          acc_append ([], [], call (PodsGetCall ns pod) io_empty)
            (containers_loop cs config ns pod (map container_Name (Containers (pod_Spec p)))
               acc_empty))"
proof (cases "Pods_Get cs ns pod")
  case (Inl err)
  then show ?thesis by (simp add: acc_empty_def visit_pod_eq)
next
  case (Inr p)
  then show ?thesis
    using containers_loop_frame [of cs config ns pod
        "map container_Name (Containers (pod_Spec p))" "([], [], call (PodsGetCall ns pod) io_empty)"]
    by (simp add: acc_empty_def visit_pod_eq)
qed

lemma visit_pod_roots:
  "r \<in> set (roots_of (visit_pod cs config ns pod acc_empty)) \<longleftrightarrow>
     (\<exists>c. container_listed cs ns pod c \<and> probe_root cs config ns pod c \<and> r = whoami_info ns pod c)"
  by (cases "Pods_Get cs ns pod")
     (auto simp: visit_pod_empty container_listed_def containers_loop_roots)

lemma visit_pod_errors:
  "r \<in> set (errors_of (visit_pod cs config ns pod acc_empty)) \<longleftrightarrow>
     (\<exists>c. container_listed cs ns pod c \<and> probe_failed cs config ns pod c \<and> r = whoami_info ns pod c)"
  by (cases "Pods_Get cs ns pod")
     (auto simp: visit_pod_empty container_listed_def containers_loop_errors)

lemma visit_pod_calls:
  "k \<in> set (calls (io_of (visit_pod cs config ns pod acc_empty))) \<longleftrightarrow>
     k = PodsGetCall ns pod \<or>
     (\<exists>c. container_listed cs ns pod c \<and> k \<in> set (probe_calls cs config ns pod c))"
  by (cases "Pods_Get cs ns pod")
     (auto simp: visit_pod_empty container_listed_def containers_loop_calls
        call_def Printf_def io_empty_def)

lemma pods_loop_roots:
  "r \<in> set (roots_of (pods_loop cs config ns pl acc_empty)) \<longleftrightarrow>
     (\<exists>pod \<in> set pl. \<exists>c. container_listed cs ns pod c \<and> probe_root cs config ns pod c \<and>
        r = whoami_info ns pod c)"
  unfolding pods_loop_fold
  by (subst fold_framed_roots, rule visit_pod_frame) (simp add: visit_pod_roots)

lemma pods_loop_errors:
  "r \<in> set (errors_of (pods_loop cs config ns pl acc_empty)) \<longleftrightarrow>
     (\<exists>pod \<in> set pl. \<exists>c. container_listed cs ns pod c \<and> probe_failed cs config ns pod c \<and>
        r = whoami_info ns pod c)"
  unfolding pods_loop_fold
  by (subst fold_framed_errors, rule visit_pod_frame) (simp add: visit_pod_errors)

lemma pods_loop_calls:
  "k \<in> set (calls (io_of (pods_loop cs config ns pl acc_empty))) \<longleftrightarrow>
     (\<exists>pod \<in> set pl. k = PodsGetCall ns pod \<or>
        (\<exists>c. container_listed cs ns pod c \<and> k \<in> set (probe_calls cs config ns pod c)))"
  unfolding pods_loop_fold
  by (subst fold_framed_calls, rule visit_pod_frame) (simp add: visit_pod_calls)

lemma visit_namespace_empty:
  "visit_namespace cs config ns acc_empty =
     (case Pods_List cs ns of
        Inl err \<Rightarrow> ([], [], Printf (line_listing_pods ns err) (call (PodsListCall ns) io_empty))
      | Inr items \<Rightarrow>
          acc_append ([], [], call (PodsListCall ns) io_empty)
            (pods_loop cs config ns (map pod_Name items) acc_empty))"
proof (cases "Pods_List cs ns")
  case (Inl err)
  then show ?thesis by (simp add: acc_empty_def visit_namespace_eq)
next
  case (Inr items)
  then show ?thesis
    using pods_loop_frame [of cs config ns "map pod_Name items"
        "([], [], call (PodsListCall ns) io_empty)"]
    by (simp add: acc_empty_def visit_namespace_eq)
qed

lemma visit_namespace_roots:
  "r \<in> set (roots_of (visit_namespace cs config ns acc_empty)) \<longleftrightarrow>
     (\<exists>pod c. pod_listed cs ns pod \<and> container_listed cs ns pod c \<and>
        probe_root cs config ns pod c \<and> r = whoami_info ns pod c)"
  by (cases "Pods_List cs ns")
     (auto simp: visit_namespace_empty pod_listed_def pods_loop_roots)

lemma visit_namespace_errors:
  "r \<in> set (errors_of (visit_namespace cs config ns acc_empty)) \<longleftrightarrow>
     (\<exists>pod c. pod_listed cs ns pod \<and> container_listed cs ns pod c \<and>
        probe_failed cs config ns pod c \<and> r = whoami_info ns pod c)"
  by (cases "Pods_List cs ns")
     (auto simp: visit_namespace_empty pod_listed_def pods_loop_errors)

lemma visit_namespace_calls:
  "k \<in> set (calls (io_of (visit_namespace cs config ns acc_empty))) \<longleftrightarrow>
     k = PodsListCall ns \<or>
     (\<exists>pod. pod_listed cs ns pod \<and>
        (k = PodsGetCall ns pod \<or>
         (\<exists>c. container_listed cs ns pod c \<and> k \<in> set (probe_calls cs config ns pod c))))"
  by (cases "Pods_List cs ns")
     (auto simp: visit_namespace_empty pod_listed_def pods_loop_calls call_def Printf_def
        io_empty_def)

lemma namespaces_loop_roots:
  "r \<in> set (roots_of (namespaces_loop cs config nsl acc_empty)) \<longleftrightarrow>
     (\<exists>ns \<in> set nsl. \<exists>pod c. pod_listed cs ns pod \<and> container_listed cs ns pod c \<and>
        probe_root cs config ns pod c \<and> r = whoami_info ns pod c)"
  unfolding namespaces_loop_fold
  by (subst fold_framed_roots, rule visit_namespace_frame) (simp add: visit_namespace_roots)

lemma namespaces_loop_errors:
  "r \<in> set (errors_of (namespaces_loop cs config nsl acc_empty)) \<longleftrightarrow>
     (\<exists>ns \<in> set nsl. \<exists>pod c. pod_listed cs ns pod \<and> container_listed cs ns pod c \<and>
        probe_failed cs config ns pod c \<and> r = whoami_info ns pod c)"
  unfolding namespaces_loop_fold
  by (subst fold_framed_errors, rule visit_namespace_frame) (simp add: visit_namespace_errors)

lemma namespaces_loop_calls:
  "k \<in> set (calls (io_of (namespaces_loop cs config nsl acc_empty))) \<longleftrightarrow>
     (\<exists>ns \<in> set nsl. k = PodsListCall ns \<or>
        (\<exists>pod. pod_listed cs ns pod \<and>
           (k = PodsGetCall ns pod \<or>
            (\<exists>c. container_listed cs ns pod c \<and> k \<in> set (probe_calls cs config ns pod c)))))"
  unfolding namespaces_loop_fold
  by (subst fold_framed_calls, rule visit_namespace_frame) (simp add: visit_namespace_calls)

lemma listNamespaces_eq:
  "listNamespaces cs excl s =
     (case Namespaces_List cs of
        Inl err \<Rightarrow> (([], Some err), call NamespacesListCall s)
      | Inr items \<Rightarrow>
          ((filter (\<lambda>n. n \<notin> set excl) (map ns_Name items), None), call NamespacesListCall s))"
  by (simp add: listNamespaces_def Let_def listNamespaces_loop_eq split: sum.splits)

lemma find_eq:
  "findContainersWithErrors cs config s =
     (case Namespaces_List cs of
        Inl err \<Rightarrow> (([], [], Some err), call NamespacesListCall s)
      | Inr items \<Rightarrow>
          ((roots_of (namespaces_loop cs config (visited_namespaces cs) acc_empty),
            errors_of (namespaces_loop cs config (visited_namespaces cs) acc_empty),
            None),
           io_append (call NamespacesListCall s)
             (io_of (namespaces_loop cs config (visited_namespaces cs) acc_empty))))"
proof (cases "Namespaces_List cs")
  case (Inl err)
  then show ?thesis by (simp add: findContainersWithErrors_def listNamespaces_eq)
next
  case (Inr items)
  let ?nsl = "visited_namespaces cs"
  have "namespaces_loop cs config ?nsl ([], [], call NamespacesListCall s) =
          acc_append ([], [], call NamespacesListCall s) (namespaces_loop cs config ?nsl acc_empty)"
    by (rule namespaces_loop_frame)
  then show ?thesis
    using Inr
    by (cases "namespaces_loop cs config ?nsl acc_empty")
       (simp add: findContainersWithErrors_def listNamespaces_eq visited_namespaces_def)
qed

lemma exec_eq:
  "execCommandInContainer cs config ns pod c cmd s =
     (case NewSPDYExecutor config ''POST'' (exec_req ns pod c cmd) of
        Inl err \<Rightarrow> (('''', Some err), call (NewSPDYExecutorCall ''POST'' (exec_req ns pod c cmd)) s)
      | Inr exec \<Rightarrow>
          ((case Stream_err exec of Some err \<Rightarrow> ('''', Some err) | None \<Rightarrow> (writes_Stdout exec, None)),
           call (StreamCall (exec_req ns pod c cmd) stream_options)
             (call (NewSPDYExecutorCall ''POST'' (exec_req ns pod c cmd)) s)))"
  by (simp add: execCommandInContainer_def Let_def split: sum.splits option.splits)

lemma probe_calls_eq:
  "probe_calls cs config ns pod c =
     NewSPDYExecutorCall ''POST'' (exec_req ns pod c ''whoami'') #
     (case NewSPDYExecutor config ''POST'' (exec_req ns pod c ''whoami'') of
        Inl err \<Rightarrow> []
      | Inr exec \<Rightarrow> [StreamCall (exec_req ns pod c ''whoami'') stream_options])"
  by (simp add: probe_calls_def exec_eq call_def io_empty_def split: sum.splits)

lemma exec_req_inject:
  "exec_req ns pod c cmd = exec_req ns' pod' c' cmd' \<longleftrightarrow> ns = ns' \<and> pod = pod' \<and> c = c' \<and> cmd = cmd'"
  by (auto simp: exec_req_def exec_option_def)

lemma whoami_info_inject:
  "whoami_info ns pod c = whoami_info ns' pod' c' \<longleftrightarrow> ns = ns' \<and> pod = pod' \<and> c = c'"
  by (auto simp: whoami_info_def)

lemma find_roots_iff:
  assumes "findContainersWithErrors cs config s = ((roots, errs, err), s')"
  shows "r \<in> set roots \<longleftrightarrow>
           (\<exists>ns pod c. reached cs ns pod c \<and> probe_root cs config ns pod c \<and> r = whoami_info ns pod c)"
proof (cases "Namespaces_List cs")
  case (Inl e)
  then show ?thesis
    using assms by (simp add: find_eq reached_def visited_namespaces_def)
next
  case (Inr items)
  then have "roots = roots_of (namespaces_loop cs config (visited_namespaces cs) acc_empty)"
    using assms by (simp add: find_eq)
  then show ?thesis
    by (auto simp: namespaces_loop_roots reached_def)
qed

lemma find_errors_iff:
  assumes "findContainersWithErrors cs config s = ((roots, errs, err), s')"
  shows "r \<in> set errs \<longleftrightarrow>
           (\<exists>ns pod c. reached cs ns pod c \<and> probe_failed cs config ns pod c \<and> r = whoami_info ns pod c)"
proof (cases "Namespaces_List cs")
  case (Inl e)
  then show ?thesis
    using assms by (simp add: find_eq reached_def visited_namespaces_def)
next
  case (Inr items)
  then have "errs = errors_of (namespaces_loop cs config (visited_namespaces cs) acc_empty)"
    using assms by (simp add: find_eq)
  then show ?thesis
    by (auto simp: namespaces_loop_errors reached_def)
qed

lemma find_new_calls:
  "drop (length (calls s)) (calls (snd (findContainersWithErrors cs config s))) =
     NamespacesListCall #
     (case Namespaces_List cs of
        Inl e \<Rightarrow> []
      | Inr items \<Rightarrow> calls (io_of (namespaces_loop cs config (visited_namespaces cs) acc_empty)))"
  by (simp add: find_eq call_def split: sum.splits)

lemma find_calls_iff:
  "k \<in> set (drop (length (calls s)) (calls (snd (findContainersWithErrors cs config s)))) \<longleftrightarrow>
     k = NamespacesListCall \<or>
     (\<exists>ns \<in> set (visited_namespaces cs). k = PodsListCall ns \<or>
        (\<exists>pod. pod_listed cs ns pod \<and>
           (k = PodsGetCall ns pod \<or>
            (\<exists>c. container_listed cs ns pod c \<and> k \<in> set (probe_calls cs config ns pod c)))))"
proof (cases "Namespaces_List cs")
  case (Inl e)
  then show ?thesis by (simp add: find_new_calls visited_namespaces_def)
next
  case (Inr items)
  then show ?thesis by (simp add: find_new_calls namespaces_loop_calls)
qed

lemma find_probed_iff:
  "NewSPDYExecutorCall ''POST'' (exec_req ns pod c ''whoami'')
     \<in> set (drop (length (calls s)) (calls (snd (findContainersWithErrors cs config s))))
   \<longleftrightarrow> reached cs ns pod c"
  unfolding find_calls_iff by (auto simp: reached_def probe_calls_eq exec_req_inject split: sum.splits)

lemma find_pods_listed_iff:
  "PodsListCall ns \<in> set (drop (length (calls s)) (calls (snd (findContainersWithErrors cs config s))))
   \<longleftrightarrow> ns \<in> set (visited_namespaces cs)"
  unfolding find_calls_iff by (auto simp: probe_calls_eq split: sum.splits)

lemma find_pod_got_iff:
  "PodsGetCall ns pod \<in> set (drop (length (calls s)) (calls (snd (findContainersWithErrors cs config s))))
   \<longleftrightarrow> ns \<in> set (visited_namespaces cs) \<and> pod_listed cs ns pod"
  unfolding find_calls_iff by (auto simp: probe_calls_eq split: sum.splits)

lemma probe_root_iff:
  assumes "execCommandInContainer cs config ns pod c ''whoami'' t = ((output, None), t')"
  shows "probe_root cs config ns pod c \<longleftrightarrow> (\<exists>pre post. output = pre @ ''root'' @ post)"
    and "\<not> probe_failed cs config ns pod c"
proof -
  have "probe_result cs config ns pod c = (output, None)"
    using assms exec_result_any_io [of cs config ns pod c t] by simp
  then show "probe_root cs config ns pod c \<longleftrightarrow> (\<exists>pre post. output = pre @ ''root'' @ post)"
    and "\<not> probe_failed cs config ns pod c"
    by (simp_all add: probe_root_def probe_failed_def strings_Contains_iff sublist_def)
qed


lemma traversal_cong:
  assumes "\<And>ns pod c cmd t. execCommandInContainer cs config' ns pod c cmd t =
             execCommandInContainer cs config ns pod c cmd t"
  shows "findContainersWithErrors cs config' s = findContainersWithErrors cs config s"
proof -
  have 1: "probe_container cs config' = probe_container cs config"
    unfolding probe_container_def assms by (rule refl)
  have 2: "containers_loop cs config' = containers_loop cs config"
    by (intro ext) (simp add: containers_loop_fold 1)
  have 3: "visit_pod cs config' = visit_pod cs config"
    unfolding visit_pod_def 2 by (rule refl)
  have 4: "pods_loop cs config' = pods_loop cs config"
    by (intro ext) (simp add: pods_loop_fold 3)
  have 5: "visit_namespace cs config' = visit_namespace cs config"
    unfolding visit_namespace_def 4 by (rule refl)
  have 6: "namespaces_loop cs config' = namespaces_loop cs config"
    by (intro ext) (simp add: namespaces_loop_fold 5)
  show ?thesis
    unfolding findContainersWithErrors_def 6 by (rule refl)
qed

lemma exec_ignores_stderr:
  "execCommandInContainer cs
     (config\<lparr>NewSPDYExecutor := \<lambda>m r. map_sum id (\<lambda>e. e\<lparr>writes_Stderr := other m r\<rparr>)
        (NewSPDYExecutor config m r)\<rparr>) ns pod c cmd s
   = execCommandInContainer cs config ns pod c cmd s"
  by (cases "NewSPDYExecutor config ''POST'' (exec_req ns pod c cmd)") (simp_all add: exec_eq split: option.splits)

lemma new_calls_exec:
  "new_calls s (snd (execCommandInContainer cs config ns pod c cmd s)) =
     NewSPDYExecutorCall ''POST'' (exec_req ns pod c cmd) #
     (case NewSPDYExecutor config ''POST'' (exec_req ns pod c cmd) of
        Inl err \<Rightarrow> []
      | Inr exec \<Rightarrow> [StreamCall (exec_req ns pod c cmd) stream_options])"
  by (simp add: new_calls_def exec_eq call_def split: sum.splits)

lemma find_exec_call_iff:
  "NewSPDYExecutorCall ''POST'' (exec_req ns pod c cmd)
     \<in> set (drop (length (calls s)) (calls (snd (findContainersWithErrors cs config s))))
   \<longleftrightarrow> reached cs ns pod c \<and> cmd = ''whoami''"
  unfolding find_calls_iff
  by (auto simp: reached_def probe_calls_eq exec_req_inject split: sum.splits)

lemma probe_failed_iff:
  assumes "execCommandInContainer cs config ns pod c ''whoami'' t = ((output, Some e), t')"
  shows "probe_failed cs config ns pod c" and "\<not> probe_root cs config ns pod c"
proof -
  have "probe_result cs config ns pod c = (output, Some e)"
    using assms exec_result_any_io [of cs config ns pod c t] by simp
  then show "probe_failed cs config ns pod c" and "\<not> probe_root cs config ns pod c"
    by (simp_all add: probe_root_def probe_failed_def)
qed

subsection \<open>The example clusters, evaluated\<close>

lemma io_empty_simps [simp]: "calls io_empty = []" "printed io_empty = []"
  by (simp_all add: io_empty_def)

lemma demo_run:
  "findContainersWithErrors demo_clientset demo_config io_empty =
     (([whoami_info ''default'' ''busybox-pod'' ''busybox'', whoami_info ''apps'' ''web'' ''sidecar''],
       [whoami_info ''apps'' ''web'' ''scratch''], None),
      \<lparr>calls =
         [NamespacesListCall,
          PodsListCall ''default'',
          PodsGetCall ''default'' ''busybox-pod'',
          NewSPDYExecutorCall ''POST'' (exec_req ''default'' ''busybox-pod'' ''busybox'' ''whoami''),
          StreamCall (exec_req ''default'' ''busybox-pod'' ''busybox'' ''whoami'') stream_options,
          PodsListCall ''locked'',
          PodsListCall ''apps'',
          PodsGetCall ''apps'' ''gone'',
          PodsGetCall ''apps'' ''web'',
          NewSPDYExecutorCall ''POST'' (exec_req ''apps'' ''web'' ''nginx'' ''whoami''),
          StreamCall (exec_req ''apps'' ''web'' ''nginx'' ''whoami'') stream_options,
          NewSPDYExecutorCall ''POST'' (exec_req ''apps'' ''web'' ''scratch'' ''whoami''),
          StreamCall (exec_req ''apps'' ''web'' ''scratch'' ''whoami'') stream_options,
          NewSPDYExecutorCall ''POST'' (exec_req ''apps'' ''web'' ''sidecar'' ''whoami''),
          StreamCall (exec_req ''apps'' ''web'' ''sidecar'' ''whoami'') stream_options],
       printed =
         [line_listing_pods ''locked'' (Error ''forbidden''),
          line_listing_containers ''gone'' (Error ''not found''),
          line_running_whoami ''scratch'' (Error ''command terminated with exit code 126'')]\<rparr>)"
  by (simp add: findContainersWithErrors_def listNamespaces_def listPods_def listContainers_def
      execCommandInContainer_def probe_container_def visit_pod_def visit_namespace_def
      demo_clientset_def demo_config_def mk_pod_def call_def Printf_def io_empty_def Let_def
      whoami_info_def exec_req_def exec_option_def)

lemma demo_new_calls:
  "new_calls io_empty (snd (findContainersWithErrors demo_clientset demo_config io_empty)) =
     [NamespacesListCall,
      PodsListCall ''default'',
      PodsGetCall ''default'' ''busybox-pod'',
      NewSPDYExecutorCall ''POST'' (exec_req ''default'' ''busybox-pod'' ''busybox'' ''whoami''),
      StreamCall (exec_req ''default'' ''busybox-pod'' ''busybox'' ''whoami'') stream_options,
      PodsListCall ''locked'',
      PodsListCall ''apps'',
      PodsGetCall ''apps'' ''gone'',
      PodsGetCall ''apps'' ''web'',
      NewSPDYExecutorCall ''POST'' (exec_req ''apps'' ''web'' ''nginx'' ''whoami''),
      StreamCall (exec_req ''apps'' ''web'' ''nginx'' ''whoami'') stream_options,
      NewSPDYExecutorCall ''POST'' (exec_req ''apps'' ''web'' ''scratch'' ''whoami''),
      StreamCall (exec_req ''apps'' ''web'' ''scratch'' ''whoami'') stream_options,
      NewSPDYExecutorCall ''POST'' (exec_req ''apps'' ''web'' ''sidecar'' ''whoami''),
      StreamCall (exec_req ''apps'' ''web'' ''sidecar'' ''whoami'') stream_options]"
  by (simp add: demo_run new_calls_def)

lemma demo_exec_busybox:
  "execCommandInContainer demo_clientset demo_config ''default'' ''busybox-pod'' ''busybox'' ''whoami''
     io_empty =
   ((''root'' @ [CHR 0x0A], None),
    \<lparr>calls =
       [NewSPDYExecutorCall ''POST'' (exec_req ''default'' ''busybox-pod'' ''busybox'' ''whoami''),
        StreamCall (exec_req ''default'' ''busybox-pod'' ''busybox'' ''whoami'') stream_options],
     printed = []\<rparr>)"
  by (simp add: exec_eq demo_config_def exec_req_def exec_option_def call_def io_empty_def)

lemma demo_exec_nginx:
  "execCommandInContainer demo_clientset demo_config ''apps'' ''web'' ''nginx'' ''whoami'' io_empty =
   ((''www-data'' @ [CHR 0x0A], None),
    \<lparr>calls =
       [NewSPDYExecutorCall ''POST'' (exec_req ''apps'' ''web'' ''nginx'' ''whoami''),
        StreamCall (exec_req ''apps'' ''web'' ''nginx'' ''whoami'') stream_options],
     printed = []\<rparr>)"
  by (simp add: exec_eq demo_config_def exec_req_def exec_option_def call_def io_empty_def)

lemma demo_exec_scratch:
  "execCommandInContainer demo_clientset demo_config ''apps'' ''web'' ''scratch'' ''whoami'' io_empty =
   (('''', Some (Error ''command terminated with exit code 126'')),
    \<lparr>calls =
       [NewSPDYExecutorCall ''POST'' (exec_req ''apps'' ''web'' ''scratch'' ''whoami''),
        StreamCall (exec_req ''apps'' ''web'' ''scratch'' ''whoami'') stream_options],
     printed = []\<rparr>)"
  by (simp add: exec_eq demo_config_def exec_req_def exec_option_def call_def io_empty_def)

lemma no_root_in_www_data: "\<nexists>pre post. ''www-data'' @ [CHR 0x0A] = pre @ ''root'' @ post"
proof -
  have "\<not> strings_Contains (''www-data'' @ [CHR 0x0A]) ''root''"
    by simp
  then show ?thesis
    by (simp add: strings_Contains_iff sublist_def)
qed

lemma run_projections:
  "findContainersWithErrors cs config s =
      ((fst (fst (findContainersWithErrors cs config s)),
        fst (snd (fst (findContainersWithErrors cs config s))),
        snd (snd (fst (findContainersWithErrors cs config s)))),
       snd (findContainersWithErrors cs config s))"
  by simp

section \<open>Membership in the exclusion set\<close>

text \<open>
  Claim C9. \<^verbatim>\<open>containsString\<close> is a function of its two arguments alone, and it is
  true exactly when the string is an element of the slice, strings being compared byte
  by byte (so the case of a letter matters). On the slice apple, banana, cherry, date it
  is false for grape and true for apple.
\<close>

theorem containsString_membership:
  "(containsString slice str \<longleftrightarrow> str \<in> set slice)
   \<and> containsString [''apple'', ''banana'', ''cherry'', ''date''] ''grape'' = False
   \<and> containsString [''apple'', ''banana'', ''cherry'', ''date''] ''apple'' = True
   \<and> containsString [''apple'', ''banana'', ''cherry'', ''date''] ''Apple'' = False"
  by (simp add: containsString_iff)

section \<open>Properties of the namespace enumerator\<close>

text \<open>
  Claim C5. For every answer of the cluster to the namespace list call and every
  exclusion set, \<^verbatim>\<open>listNamespaces\<close> returns the error of the call, or else the names of
  the listed namespaces that are not elements of the exclusion set, in the order of the
  list; no element of the exclusion set is in its output. Names are compared exactly:
  with \<open>kube-system\<close> excluded, \<open>Kube-System\<close> and \<open>kube-system-2\<close> are kept.
\<close>

theorem listNamespaces_filters:
  "fst (listNamespaces cs excludeNamespaces s) =
     (case Namespaces_List cs of
        Inl err \<Rightarrow> ([], Some err)
      | Inr items \<Rightarrow> (filter (\<lambda>n. n \<notin> set excludeNamespaces) (map ns_Name items), None))
   \<and> set (fst (fst (listNamespaces cs excludeNamespaces s))) \<inter> set excludeNamespaces = {}
   \<and> fst (listNamespaces
         \<lparr>Namespaces_List =
            Inr [\<lparr>ns_Name = ''Kube-System''\<rparr>, \<lparr>ns_Name = ''kube-system''\<rparr>,
                 \<lparr>ns_Name = ''kube-system-2''\<rparr>],
          Pods_List = pl, Pods_Get = pg\<rparr> [''kube-system''] s)
       = ([''Kube-System'', ''kube-system-2''], None)"
  by (auto simp: listNamespaces_eq split: sum.splits)

text \<open>
  Claim C6. The exclusion set is an argument of \<^verbatim>\<open>listNamespaces\<close>: its output is
  the listed names filtered by \<^verbatim>\<open>containsString\<close> on whatever set the caller passes,
  and with the empty set every listed name is returned. The set the traversal passes is
  \<open>kube-system\<close>, \<open>kube-public\<close>, \<open>kube-node-lease\<close>: the namespaces whose pods
  \<^verbatim>\<open>findContainersWithErrors\<close> lists are exactly the listed ones outside these three.
\<close>

theorem exclusion_set_parameter:
  assumes "Namespaces_List cs = Inr items"
  shows "fst (listNamespaces cs excludeNamespaces s)
           = (filter (\<lambda>n. \<not> containsString excludeNamespaces n) (map ns_Name items), None)
       \<and> fst (listNamespaces cs [] s) = (map ns_Name items, None)
       \<and> {ns. PodsListCall ns \<in> set (new_calls s (snd (findContainersWithErrors cs config s)))}
           = set (map ns_Name items) - {''kube-system'', ''kube-public'', ''kube-node-lease''}"
  using assms
  by (auto simp: listNamespaces_eq containsString_iff new_calls_def find_pods_listed_iff
      visited_namespaces_def)

text \<open>
  On the example cluster: excluding only \<open>default\<close> keeps \<open>kube-system\<close>, excluding
  nothing keeps all four, and the traversal lists the pods of \<open>default\<close>, \<open>locked\<close>
  and \<open>apps\<close>.
\<close>

theorem exclusion_set_parameter_witness:
  "fst (listNamespaces demo_clientset [''default''] io_empty)
     = ([''kube-system'', ''locked'', ''apps''], None)
   \<and> fst (listNamespaces demo_clientset [] io_empty)
     = ([''default'', ''kube-system'', ''locked'', ''apps''], None)
   \<and> {ns. PodsListCall ns
          \<in> set (new_calls io_empty (snd (findContainersWithErrors demo_clientset demo_config io_empty)))}
     = {''default'', ''locked'', ''apps''}"
proof -
  have listed: "Namespaces_List demo_clientset =
      Inr [\<lparr>ns_Name = ''default''\<rparr>, \<lparr>ns_Name = ''kube-system''\<rparr>, \<lparr>ns_Name = ''locked''\<rparr>,
           \<lparr>ns_Name = ''apps''\<rparr>]"
    by (simp add: demo_clientset_def)
  note t = exclusion_set_parameter [OF listed]
  have 1: "fst (listNamespaces demo_clientset [''default''] io_empty)
     = ([''kube-system'', ''locked'', ''apps''], None)"
    using t [of "[''default'']" io_empty, THEN conjunct1] by simp
  have 2: "fst (listNamespaces demo_clientset [] io_empty)
     = ([''default'', ''kube-system'', ''locked'', ''apps''], None)"
    using t [of "[]" io_empty, THEN conjunct2, THEN conjunct1] by simp
  have 3: "{ns. PodsListCall ns
          \<in> set (new_calls io_empty (snd (findContainersWithErrors demo_clientset demo_config io_empty)))}
     = {''default'', ''locked'', ''apps''}"
    using t [of "[]" io_empty demo_config, THEN conjunct2, THEN conjunct2] by auto
  show ?thesis
    using 1 2 3 by (intro conjI)
qed

section \<open>Properties of the container enumerator\<close>

text \<open>
  Claim C8. For every namespace and pod name, \<^verbatim>\<open>listContainers\<close> returns the error of
  the get call, or else the names of the containers in \<^verbatim>\<open>Spec.Containers\<close> of the pod,
  in their order. The init containers play no part: replacing them by any others leaves
  the result and the effects unchanged, and a pod with init container \<open>init\<close>,
  containers \<open>app\<close> and \<open>sidecar\<close> and ephemeral container \<open>debug\<close> yields
  \<open>app\<close>, \<open>sidecar\<close>.
\<close>

theorem listContainers_spec_containers:
  "fst (listContainers cs namespace podName s) =
     (case Pods_Get cs namespace podName of
        Inl err \<Rightarrow> ([], Some err)
      | Inr pod \<Rightarrow> (map container_Name (Containers (pod_Spec pod)), None))
   \<and> listContainers
        (cs\<lparr>Pods_Get := \<lambda>n p. map_sum id
               (\<lambda>pod. pod\<lparr>pod_Spec := (pod_Spec pod)\<lparr>InitContainers := inits n p\<rparr>\<rparr>)
               (Pods_Get cs n p)\<rparr>) namespace podName s
       = listContainers cs namespace podName s
   \<and> fst (listContainers
         \<lparr>Namespaces_List = nl, Pods_List = pl,
          Pods_Get = \<lambda>n p. Inr \<lparr>pod_Name = p,
            pod_Spec = \<lparr>InitContainers = [\<lparr>container_Name = ''init''\<rparr>],
                        Containers = [\<lparr>container_Name = ''app''\<rparr>, \<lparr>container_Name = ''sidecar''\<rparr>],
                        EphemeralContainers = [\<lparr>container_Name = ''debug''\<rparr>]\<rparr>\<rparr>\<rparr>
         namespace podName s)
       = ([''app'', ''sidecar''], None)"
  by (auto simp: listContainers_eq split: sum.splits)

section \<open>Properties of the remote probe executor\<close>

text \<open>
  Claim C7. For every namespace, pod name, container name and command string,
  \<^verbatim>\<open>execCommandInContainer\<close> creates an executor for the exec subresource of the pod
  with the flags stdin false, stdout true, stderr true, tty false, and streams with a
  standard-output and a standard-error writer attached; when the executor is created and
  the stream returns no error, it returns the text written to standard output. What is
  written to standard error changes nothing of what the executor or the traversal returns
  and does. The command is the one passed in.
\<close>

theorem exec_channel:
  "(let req = \<lparr>req_Resource = ''pods'', req_Name = podName, req_Namespace = namespace,
               req_SubResource = ''exec'',
               req_Params = \<lparr>exec_Command = [''sh'', ''-c'', command],
                              exec_Container = containerName,
                              exec_Stdin = False, exec_Stdout = True, exec_Stderr = True,
                              exec_TTY = False\<rparr>\<rparr>;
        quiet = config\<lparr>NewSPDYExecutor := \<lambda>m r. map_sum id
                         (\<lambda>e. e\<lparr>writes_Stderr := other m r\<rparr>) (NewSPDYExecutor config m r)\<rparr>
    in new_calls s (snd (execCommandInContainer cs config namespace podName containerName command s))
         = NewSPDYExecutorCall ''POST'' req #
           (case NewSPDYExecutor config ''POST'' req of
              Inl err \<Rightarrow> []
            | Inr exec \<Rightarrow>
                [StreamCall req \<lparr>so_Stdin = False, so_Stdout = True, so_Stderr = True,
                                 so_Tty = False\<rparr>])
       \<and> (\<forall>exec. NewSPDYExecutor config ''POST'' req = Inr exec \<and> Stream_err exec = None \<longrightarrow>
            fst (execCommandInContainer cs config namespace podName containerName command s)
              = (writes_Stdout exec, None))
       \<and> execCommandInContainer cs quiet namespace podName containerName command s
           = execCommandInContainer cs config namespace podName containerName command s
       \<and> findContainersWithErrors cs quiet s = findContainersWithErrors cs config s)"
proof -
  let ?req = "exec_req namespace podName containerName command"
  let ?quiet = "config\<lparr>NewSPDYExecutor := \<lambda>m r. map_sum id
                         (\<lambda>e. e\<lparr>writes_Stderr := other m r\<rparr>) (NewSPDYExecutor config m r)\<rparr>"
  have req: "?req = \<lparr>req_Resource = ''pods'', req_Name = podName, req_Namespace = namespace,
               req_SubResource = ''exec'',
               req_Params = \<lparr>exec_Command = [''sh'', ''-c'', command],
                              exec_Container = containerName,
                              exec_Stdin = False, exec_Stdout = True, exec_Stderr = True,
                              exec_TTY = False\<rparr>\<rparr>"
    by (simp add: exec_req_def exec_option_def)
  have a: "new_calls s (snd (execCommandInContainer cs config namespace podName containerName command s))
         = NewSPDYExecutorCall ''POST'' ?req #
           (case NewSPDYExecutor config ''POST'' ?req of
              Inl err \<Rightarrow> []
            | Inr exec \<Rightarrow>
                [StreamCall ?req \<lparr>so_Stdin = False, so_Stdout = True, so_Stderr = True,
                                 so_Tty = False\<rparr>])"
    unfolding new_calls_exec stream_options_def by (rule refl)
  have b: "\<forall>exec. NewSPDYExecutor config ''POST'' ?req = Inr exec \<and> Stream_err exec = None \<longrightarrow>
            fst (execCommandInContainer cs config namespace podName containerName command s)
              = (writes_Stdout exec, None)"
    by (simp add: exec_eq)
  have c: "execCommandInContainer cs ?quiet ns pod c cmd t = execCommandInContainer cs config ns pod c cmd t"
    for ns pod c cmd t
    by (rule exec_ignores_stderr)
  have d: "findContainersWithErrors cs ?quiet s = findContainersWithErrors cs config s"
    by (rule traversal_cong) (rule c)
  show ?thesis
    unfolding Let_def req [symmetric] using a b c d by simp
qed

text \<open>The probe of the container \<open>busybox\<close> of the example cluster.\<close>

theorem exec_channel_witness:
  "new_calls io_empty
     (snd (execCommandInContainer demo_clientset demo_config ''default'' ''busybox-pod'' ''busybox''
             ''whoami'' io_empty))
     = [NewSPDYExecutorCall ''POST''
          \<lparr>req_Resource = ''pods'', req_Name = ''busybox-pod'', req_Namespace = ''default'',
            req_SubResource = ''exec'',
            req_Params = \<lparr>exec_Command = [''sh'', ''-c'', ''whoami''],
                           exec_Container = ''busybox'',
                           exec_Stdin = False, exec_Stdout = True, exec_Stderr = True,
                           exec_TTY = False\<rparr>\<rparr>,
        StreamCall
          \<lparr>req_Resource = ''pods'', req_Name = ''busybox-pod'', req_Namespace = ''default'',
            req_SubResource = ''exec'',
            req_Params = \<lparr>exec_Command = [''sh'', ''-c'', ''whoami''],
                           exec_Container = ''busybox'',
                           exec_Stdin = False, exec_Stdout = True, exec_Stderr = True,
                           exec_TTY = False\<rparr>\<rparr>
          \<lparr>so_Stdin = False, so_Stdout = True, so_Stderr = True, so_Tty = False\<rparr>]
   \<and> fst (execCommandInContainer demo_clientset demo_config ''default'' ''busybox-pod'' ''busybox''
            ''whoami'' io_empty)
     = (''root'' @ [CHR 0x0A], None)"
proof -
  let ?req = "\<lparr>req_Resource = ''pods'', req_Name = ''busybox-pod'', req_Namespace = ''default'',
            req_SubResource = ''exec'',
            req_Params = \<lparr>exec_Command = [''sh'', ''-c'', ''whoami''],
                           exec_Container = ''busybox'',
                           exec_Stdin = False, exec_Stdout = True, exec_Stderr = True,
                           exec_TTY = False\<rparr>\<rparr>"
  let ?exec = "\<lparr>writes_Stdout = ''root'' @ [CHR 0x0A], writes_Stderr = ''warning'',
                 Stream_err = None\<rparr>"
  note t = exec_channel [where s = io_empty and cs = demo_clientset and config = demo_config
      and namespace = "''default''" and podName = "''busybox-pod''" and containerName = "''busybox''"
      and command = "''whoami''" and other = "\<lambda>m r. []", unfolded Let_def]
  have env: "NewSPDYExecutor demo_config ''POST'' ?req = Inr ?exec"
    by (simp add: demo_config_def)
  have ok: "NewSPDYExecutor demo_config ''POST'' ?req = Inr ?exec \<and> Stream_err ?exec = None"
    using env by simp
  have 1: "new_calls io_empty
     (snd (execCommandInContainer demo_clientset demo_config ''default'' ''busybox-pod'' ''busybox''
             ''whoami'' io_empty))
     = [NewSPDYExecutorCall ''POST'' ?req,
        StreamCall ?req \<lparr>so_Stdin = False, so_Stdout = True, so_Stderr = True, so_Tty = False\<rparr>]"
    using t [THEN conjunct1] unfolding env by simp
  have 2: "fst (execCommandInContainer demo_clientset demo_config ''default'' ''busybox-pod''
             ''busybox'' ''whoami'' io_empty) = (''root'' @ [CHR 0x0A], None)"
    using t [THEN conjunct2, THEN conjunct1, rule_format, OF ok] by simp
  show ?thesis
    using 1 2 by (intro conjI)
qed



section \<open>Classification\<close>

text \<open>
  Claim C1. Take a run of the traversal and a container that it probes and whose probe
  returns an output and no error. The record of that container, with command
  \<open>whoami\<close>, is in \<^verbatim>\<open>rootContainers\<close> if and only if \<open>root\<close> occurs somewhere in
  the output. When it does not occur, no record with the identity of that container is in
  either list. When the output is \<open>root\<close> followed by a newline, the record is in
  \<^verbatim>\<open>rootContainers\<close>; and every record there has the command \<open>whoami\<close>.
\<close>

theorem root_classification:
  assumes run: "findContainersWithErrors cs config s = ((rootContainers, errorContainers, err), s')"
    and probed: "NewSPDYExecutorCall ''POST'' (exec_req ns pod c ''whoami'') \<in> set (new_calls s s')"
    and ok: "execCommandInContainer cs config ns pod c ''whoami'' t = ((output, None), t')"
  shows "(\<lparr>Namespace = ns, PodName = pod, Container = c, CommandExec = ''whoami''\<rparr>
            \<in> set rootContainers \<longleftrightarrow> (\<exists>pre post. output = pre @ ''root'' @ post))
       \<and> ((\<nexists>pre post. output = pre @ ''root'' @ post) \<longrightarrow>
            (\<forall>r \<in> set (rootContainers @ errorContainers). identity r \<noteq> (ns, pod, c)))
       \<and> (output = ''root'' @ [CHR 0x0A] \<longrightarrow>
            \<lparr>Namespace = ns, PodName = pod, Container = c, CommandExec = ''whoami''\<rparr>
              \<in> set rootContainers)
       \<and> (\<forall>r \<in> set rootContainers. CommandExec r = ''whoami'')"
proof -
  have s': "s' = snd (findContainersWithErrors cs config s)"
    using run by simp
  have reached: "reached cs ns pod c"
    using probed unfolding s' new_calls_def find_probed_iff .
  have root_iff: "probe_root cs config ns pod c \<longleftrightarrow> (\<exists>pre post. output = pre @ ''root'' @ post)"
    and not_failed: "\<not> probe_failed cs config ns pod c"
    using probe_root_iff [OF ok] by blast+
  have mem: "whoami_info ns pod c \<in> set rootContainers \<longleftrightarrow> probe_root cs config ns pod c"
    using reached by (auto simp: find_roots_iff [OF run] whoami_info_inject)
  have 1: "\<lparr>Namespace = ns, PodName = pod, Container = c, CommandExec = ''whoami''\<rparr>
            \<in> set rootContainers \<longleftrightarrow> (\<exists>pre post. output = pre @ ''root'' @ post)"
    using mem root_iff by (simp add: whoami_info_def)
  have 2: "identity r \<noteq> (ns, pod, c)"
    if "\<nexists>pre post. output = pre @ ''root'' @ post" and "r \<in> set (rootContainers @ errorContainers)" for r
  proof
    assume id: "identity r = (ns, pod, c)"
    from that(2) consider "r \<in> set rootContainers" | "r \<in> set errorContainers" by auto
    then show False
    proof cases
      case 1
      then obtain ns' pod' c' where "probe_root cs config ns' pod' c'" "r = whoami_info ns' pod' c'"
        unfolding find_roots_iff [OF run] by blast
      with id have "probe_root cs config ns pod c"
        by (simp add: identity_def whoami_info_def)
      with root_iff that(1) show False by simp
    next
      case 2
      then obtain ns' pod' c' where "probe_failed cs config ns' pod' c'" "r = whoami_info ns' pod' c'"
        unfolding find_errors_iff [OF run] by blast
      with id have "probe_failed cs config ns pod c"
        by (simp add: identity_def whoami_info_def)
      with not_failed show False by simp
    qed
  qed
  have 3: "\<lparr>Namespace = ns, PodName = pod, Container = c, CommandExec = ''whoami''\<rparr>
              \<in> set rootContainers" if "output = ''root'' @ [CHR 0x0A]"
  proof -
    have "output = [] @ ''root'' @ [CHR 0x0A]" using that by simp
    then have "\<exists>pre post. output = pre @ ''root'' @ post" by blast
    with 1 show ?thesis by simp
  qed
  have 4: "CommandExec r = ''whoami''" if "r \<in> set rootContainers" for r
    using that unfolding find_roots_iff [OF run] by (auto simp: whoami_info_def)
  show ?thesis
    using 1 2 3 4 by blast
qed

text \<open>
  On the example cluster, \<open>busybox\<close> answers root and is recorded; \<open>nginx\<close> answers
  \<open>www-data\<close> and is in neither list.
\<close>

theorem root_classification_witness:
  "\<lparr>Namespace = ''default'', PodName = ''busybox-pod'', Container = ''busybox'',
     CommandExec = ''whoami''\<rparr>
     \<in> set (fst (fst (findContainersWithErrors demo_clientset demo_config io_empty)))
   \<and> \<lparr>Namespace = ''apps'', PodName = ''web'', Container = ''nginx'', CommandExec = ''whoami''\<rparr>
     \<notin> set (fst (fst (findContainersWithErrors demo_clientset demo_config io_empty)))
   \<and> (''apps'', ''web'', ''nginx'')
     \<notin> identity ` set (fst (fst (findContainersWithErrors demo_clientset demo_config io_empty)) @
                        fst (snd (fst (findContainersWithErrors demo_clientset demo_config io_empty))))"
proof -
  have p1: "NewSPDYExecutorCall ''POST'' (exec_req ''default'' ''busybox-pod'' ''busybox'' ''whoami'')
              \<in> set (new_calls io_empty (snd (findContainersWithErrors demo_clientset demo_config io_empty)))"
    by (simp add: demo_run new_calls_def)
  have p2: "NewSPDYExecutorCall ''POST'' (exec_req ''apps'' ''web'' ''nginx'' ''whoami'')
              \<in> set (new_calls io_empty (snd (findContainersWithErrors demo_clientset demo_config io_empty)))"
    by (simp add: demo_run new_calls_def)
  have run: "findContainersWithErrors demo_clientset demo_config io_empty =
      ((fst (fst (findContainersWithErrors demo_clientset demo_config io_empty)),
        fst (snd (fst (findContainersWithErrors demo_clientset demo_config io_empty))),
        snd (snd (fst (findContainersWithErrors demo_clientset demo_config io_empty)))),
       snd (findContainersWithErrors demo_clientset demo_config io_empty))"
    by simp
  note busybox = root_classification [OF run p1 demo_exec_busybox]
  note nginx = root_classification [OF run p2 demo_exec_nginx]
  have 1: "\<lparr>Namespace = ''default'', PodName = ''busybox-pod'', Container = ''busybox'',
     CommandExec = ''whoami''\<rparr>
     \<in> set (fst (fst (findContainersWithErrors demo_clientset demo_config io_empty)))"
    using busybox [THEN conjunct2, THEN conjunct2, THEN conjunct1] by simp
  have 2: "\<lparr>Namespace = ''apps'', PodName = ''web'', Container = ''nginx'', CommandExec = ''whoami''\<rparr>
     \<notin> set (fst (fst (findContainersWithErrors demo_clientset demo_config io_empty)))"
    using nginx [THEN conjunct1] no_root_in_www_data by simp
  have 3: "(''apps'', ''web'', ''nginx'')
     \<notin> identity ` set (fst (fst (findContainersWithErrors demo_clientset demo_config io_empty)) @
                        fst (snd (fst (findContainersWithErrors demo_clientset demo_config io_empty))))"
  proof -
    have "\<forall>r \<in> set (fst (fst (findContainersWithErrors demo_clientset demo_config io_empty)) @
                      fst (snd (fst (findContainersWithErrors demo_clientset demo_config io_empty)))).
            identity r \<noteq> (''apps'', ''web'', ''nginx'')"
      using nginx [THEN conjunct2, THEN conjunct1] no_root_in_www_data by (rule mp)
    then show ?thesis
      by (auto simp del: set_append)
  qed
  show ?thesis
    using 1 2 3 by (intro conjI)
qed


section \<open>Fatal and non-fatal errors\<close>

text \<open>
  Claim C2. For every run of the traversal:
  \<^item> if listing the namespaces fails, the run returns that error with both lists empty,
    and makes no other call;
  \<^item> otherwise it returns no error, and the pods of every listed namespace outside the
    three excluded ones are listed, whatever happened in the namespaces before it;
  \<^item> a namespace whose pod listing fails contributes no record, and no pod of it is
    fetched or probed;
  \<^item> every pod of a successful pod listing is fetched, whatever happened to the pods
    before it;
  \<^item> a pod whose fetch fails contributes no record and none of its containers is probed;
  \<^item> every container of a fetched pod is probed, whatever happened to the containers
    before it;
  \<^item> a probed container whose probe returns an error is in \<^verbatim>\<open>errorContainers\<close>, and
    no record with its identity is in \<^verbatim>\<open>rootContainers\<close>.
\<close>

theorem traversal_error_handling:
  assumes run: "findContainersWithErrors cs config s = ((rootContainers, errorContainers, err), s')"
  shows
    "(\<forall>e. Namespaces_List cs = Inl e \<longrightarrow>
        rootContainers = [] \<and> errorContainers = [] \<and> err = Some e \<and>
        new_calls s s' = [NamespacesListCall])
   \<and> (\<forall>items. Namespaces_List cs = Inr items \<longrightarrow>
        err = None \<and>
        (\<forall>ns \<in> set (map ns_Name items) - {''kube-system'', ''kube-public'', ''kube-node-lease''}.
           PodsListCall ns \<in> set (new_calls s s')))
   \<and> (\<forall>ns e. Pods_List cs ns = Inl e \<longrightarrow>
        (\<forall>r \<in> set (rootContainers @ errorContainers). Namespace r \<noteq> ns) \<and>
        (\<forall>pod. PodsGetCall ns pod \<notin> set (new_calls s s')) \<and>
        (\<forall>pod c cmd. NewSPDYExecutorCall ''POST'' (exec_req ns pod c cmd) \<notin> set (new_calls s s')))
   \<and> (\<forall>ns pods. PodsListCall ns \<in> set (new_calls s s') \<and> Pods_List cs ns = Inr pods \<longrightarrow>
        (\<forall>pod \<in> set (map pod_Name pods). PodsGetCall ns pod \<in> set (new_calls s s')))
   \<and> (\<forall>ns pod e. Pods_Get cs ns pod = Inl e \<longrightarrow>
        (\<forall>r \<in> set (rootContainers @ errorContainers). \<not> (Namespace r = ns \<and> PodName r = pod)) \<and>
        (\<forall>c cmd. NewSPDYExecutorCall ''POST'' (exec_req ns pod c cmd) \<notin> set (new_calls s s')))
   \<and> (\<forall>ns pod p. PodsGetCall ns pod \<in> set (new_calls s s') \<and> Pods_Get cs ns pod = Inr p \<longrightarrow>
        (\<forall>c \<in> set (map container_Name (Containers (pod_Spec p))).
           NewSPDYExecutorCall ''POST'' (exec_req ns pod c ''whoami'') \<in> set (new_calls s s')))
   \<and> (\<forall>ns pod c output e t t'.
        NewSPDYExecutorCall ''POST'' (exec_req ns pod c ''whoami'') \<in> set (new_calls s s') \<and>
        execCommandInContainer cs config ns pod c ''whoami'' t = ((output, Some e), t') \<longrightarrow>
        \<lparr>Namespace = ns, PodName = pod, Container = c, CommandExec = ''whoami''\<rparr>
          \<in> set errorContainers \<and>
        (\<forall>r \<in> set rootContainers. identity r \<noteq> (ns, pod, c)))"
    (is "?fatal \<and> ?namespaces \<and> ?skip_ns \<and> ?pods \<and> ?skip_pod \<and> ?containers \<and> ?failed")
proof -
  have s': "s' = snd (findContainersWithErrors cs config s)"
    using run by simp
  note roots = find_roots_iff [OF run]
  note errs = find_errors_iff [OF run]
  have recs: "\<exists>ns pod c. reached cs ns pod c \<and> r = whoami_info ns pod c"
    if "r \<in> set (rootContainers @ errorContainers)" for r
    using that roots errs by auto
  have p1: "rootContainers = [] \<and> errorContainers = [] \<and> err = Some e \<and>
        new_calls s s' = [NamespacesListCall]" if "Namespaces_List cs = Inl e" for e
    using that run by (auto simp: find_eq new_calls_def call_def)
  have p2: "err = None \<and>
        (\<forall>ns \<in> set (map ns_Name items) - {''kube-system'', ''kube-public'', ''kube-node-lease''}.
           PodsListCall ns \<in> set (new_calls s s'))" if "Namespaces_List cs = Inr items" for items
  proof
    show "err = None" using that run by (simp add: find_eq)
    show "\<forall>ns \<in> set (map ns_Name items) - {''kube-system'', ''kube-public'', ''kube-node-lease''}.
           PodsListCall ns \<in> set (new_calls s s')"
      unfolding s' new_calls_def find_pods_listed_iff
      using that by (auto simp: visited_namespaces_def)
  qed
  have p3: "(\<forall>r \<in> set (rootContainers @ errorContainers). Namespace r \<noteq> ns) \<and>
        (\<forall>pod. PodsGetCall ns pod \<notin> set (new_calls s s')) \<and>
        (\<forall>pod c cmd. NewSPDYExecutorCall ''POST'' (exec_req ns pod c cmd) \<notin> set (new_calls s s'))"
    if "Pods_List cs ns = Inl e" for ns e
  proof -
    have no_pod: "\<not> pod_listed cs ns pod" for pod
      using that by (simp add: pod_listed_def)
    have "Namespace r \<noteq> ns" if "r \<in> set (rootContainers @ errorContainers)" for r
      using recs [OF that] no_pod by (auto simp: reached_def whoami_info_def)
    moreover have "PodsGetCall ns pod \<notin> set (new_calls s s')" for pod
      unfolding s' new_calls_def find_pod_got_iff using no_pod by simp
    moreover have "NewSPDYExecutorCall ''POST'' (exec_req ns pod c cmd) \<notin> set (new_calls s s')"
      for pod c cmd
      unfolding s' new_calls_def find_exec_call_iff using no_pod by (simp add: reached_def)
    ultimately show ?thesis by blast
  qed
  have p4: "\<forall>pod \<in> set (map pod_Name pods). PodsGetCall ns pod \<in> set (new_calls s s')"
    if "PodsListCall ns \<in> set (new_calls s s') \<and> Pods_List cs ns = Inr pods" for ns pods
    using that unfolding s' new_calls_def find_pod_got_iff find_pods_listed_iff
    by (auto simp: pod_listed_def)
  have p5: "(\<forall>r \<in> set (rootContainers @ errorContainers). \<not> (Namespace r = ns \<and> PodName r = pod)) \<and>
        (\<forall>c cmd. NewSPDYExecutorCall ''POST'' (exec_req ns pod c cmd) \<notin> set (new_calls s s'))"
    if "Pods_Get cs ns pod = Inl e" for ns pod e
  proof -
    have no_c: "\<not> container_listed cs ns pod c" for c
      using that by (simp add: container_listed_def)
    have "\<not> (Namespace r = ns \<and> PodName r = pod)" if "r \<in> set (rootContainers @ errorContainers)" for r
      using recs [OF that] no_c by (auto simp: reached_def whoami_info_def)
    moreover have "NewSPDYExecutorCall ''POST'' (exec_req ns pod c cmd) \<notin> set (new_calls s s')"
      for c cmd
      unfolding s' new_calls_def find_exec_call_iff using no_c by (simp add: reached_def)
    ultimately show ?thesis by blast
  qed
  have p6: "\<forall>c \<in> set (map container_Name (Containers (pod_Spec p))).
           NewSPDYExecutorCall ''POST'' (exec_req ns pod c ''whoami'') \<in> set (new_calls s s')"
    if "PodsGetCall ns pod \<in> set (new_calls s s') \<and> Pods_Get cs ns pod = Inr p" for ns pod p
    using that unfolding s' new_calls_def find_pod_got_iff find_exec_call_iff
    by (auto simp: reached_def container_listed_def)
  have p7: "\<lparr>Namespace = ns, PodName = pod, Container = c, CommandExec = ''whoami''\<rparr>
          \<in> set errorContainers \<and>
        (\<forall>r \<in> set rootContainers. identity r \<noteq> (ns, pod, c))"
    if "NewSPDYExecutorCall ''POST'' (exec_req ns pod c ''whoami'') \<in> set (new_calls s s') \<and>
        execCommandInContainer cs config ns pod c ''whoami'' t = ((out, Some e), t')"
    for ns pod c out e t t'
  proof -
    have reached: "reached cs ns pod c"
      using that unfolding s' new_calls_def find_exec_call_iff by simp
    have failed: "probe_failed cs config ns pod c" and not_root: "\<not> probe_root cs config ns pod c"
      using probe_failed_iff that by blast+
    have "whoami_info ns pod c \<in> set errorContainers"
      unfolding errs using reached failed by blast
    moreover have "identity r \<noteq> (ns, pod, c)" if "r \<in> set rootContainers" for r
      using that not_root unfolding roots by (auto simp: identity_def whoami_info_def)
    ultimately show ?thesis by (simp add: whoami_info_def)
  qed
  have ?fatal using p1 by blast
  moreover have ?namespaces using p2 by blast
  moreover have ?skip_ns using p3 by blast
  moreover have ?pods using p4 by blast
  moreover have ?skip_pod using p5 by blast
  moreover have ?containers using p6 by blast
  moreover have ?failed using p7 by blast
  ultimately show ?thesis by (intro conjI)
qed

text \<open>
  On the example clusters: the unauthorized session aborts after the namespace list call;
  \<open>apps\<close> is listed after \<open>locked\<close> failed, \<open>web\<close> is fetched after \<open>gone\<close>
  failed, and \<open>sidecar\<close> is probed after the probe of \<open>scratch\<close> failed.
\<close>

theorem traversal_error_handling_witness:
  "fst (findContainersWithErrors unauthorized_clientset demo_config io_empty)
     = ([], [], Some (Error ''unauthorized''))
   \<and> new_calls io_empty (snd (findContainersWithErrors unauthorized_clientset demo_config io_empty))
     = [NamespacesListCall]
   \<and> PodsListCall ''apps''
       \<in> set (new_calls io_empty (snd (findContainersWithErrors demo_clientset demo_config io_empty)))
   \<and> PodsGetCall ''locked'' ''vault''
       \<notin> set (new_calls io_empty (snd (findContainersWithErrors demo_clientset demo_config io_empty)))
   \<and> PodsGetCall ''apps'' ''web''
       \<in> set (new_calls io_empty (snd (findContainersWithErrors demo_clientset demo_config io_empty)))
   \<and> NewSPDYExecutorCall ''POST'' (exec_req ''apps'' ''gone'' ''old'' ''whoami'')
       \<notin> set (new_calls io_empty (snd (findContainersWithErrors demo_clientset demo_config io_empty)))
   \<and> NewSPDYExecutorCall ''POST'' (exec_req ''apps'' ''web'' ''sidecar'' ''whoami'')
       \<in> set (new_calls io_empty (snd (findContainersWithErrors demo_clientset demo_config io_empty)))
   \<and> \<lparr>Namespace = ''apps'', PodName = ''web'', Container = ''scratch'', CommandExec = ''whoami''\<rparr>
       \<in> set (fst (snd (fst (findContainersWithErrors demo_clientset demo_config io_empty))))"
proof -
  let ?new = "new_calls io_empty (snd (findContainersWithErrors demo_clientset demo_config io_empty))"
  note u = traversal_error_handling [OF run_projections
      [of unauthorized_clientset demo_config io_empty]]
  note t = traversal_error_handling [OF run_projections [of demo_clientset demo_config io_empty]]
  have no_list: "Namespaces_List unauthorized_clientset = Inl (Error ''unauthorized'')"
    by (simp add: unauthorized_clientset_def)
  have listed: "Namespaces_List demo_clientset =
      Inr [\<lparr>ns_Name = ''default''\<rparr>, \<lparr>ns_Name = ''kube-system''\<rparr>, \<lparr>ns_Name = ''locked''\<rparr>,
           \<lparr>ns_Name = ''apps''\<rparr>]"
    by (simp add: demo_clientset_def)
  have locked: "Pods_List demo_clientset ''locked'' = Inl (Error ''forbidden'')"
    by (simp add: demo_clientset_def)
  have apps: "Pods_List demo_clientset ''apps'' =
      Inr [mk_pod ''gone'' [] [''old''],
           mk_pod ''web'' [''setup''] [''nginx'', ''scratch'', ''sidecar'']]"
    by (simp add: demo_clientset_def)
  have gone: "Pods_Get demo_clientset ''apps'' ''gone'' = Inl (Error ''not found'')"
    by (simp add: demo_clientset_def)
  have web: "Pods_Get demo_clientset ''apps'' ''web'' =
      Inr (mk_pod ''web'' [''setup''] [''nginx'', ''scratch'', ''sidecar''])"
    by (simp add: demo_clientset_def)
  have fatal: "fst (findContainersWithErrors unauthorized_clientset demo_config io_empty)
       = ([], [], Some (Error ''unauthorized''))
     \<and> new_calls io_empty (snd (findContainersWithErrors unauthorized_clientset demo_config io_empty))
       = [NamespacesListCall]"
    using u [THEN conjunct1, rule_format, OF no_list] by (simp add: prod_eq_iff)
  have 2: "PodsListCall ''apps'' \<in> set ?new"
    using t [THEN conjunct2, THEN conjunct1, rule_format, OF listed, THEN conjunct2,
        rule_format, of "''apps''"]
    by simp
  have 3: "PodsGetCall ''locked'' ''vault'' \<notin> set ?new"
    using t [THEN conjunct2, THEN conjunct2, THEN conjunct1, rule_format, OF locked,
        THEN conjunct2, THEN conjunct1, rule_format, of "''vault''"] .
  have 4: "PodsGetCall ''apps'' ''web'' \<in> set ?new"
    using t [THEN conjunct2, THEN conjunct2, THEN conjunct2, THEN conjunct1, rule_format,
        OF conjI [OF 2 apps], of "''web''"]
    by (simp add: mk_pod_def)
  have 5: "NewSPDYExecutorCall ''POST'' (exec_req ''apps'' ''gone'' ''old'' ''whoami'') \<notin> set ?new"
    using t [THEN conjunct2, THEN conjunct2, THEN conjunct2, THEN conjunct2, THEN conjunct1,
        rule_format, OF gone, THEN conjunct2, rule_format, of "''old''" "''whoami''"] .
  have 6: "NewSPDYExecutorCall ''POST'' (exec_req ''apps'' ''web'' ''sidecar'' ''whoami'') \<in> set ?new"
    using t [THEN conjunct2, THEN conjunct2, THEN conjunct2, THEN conjunct2, THEN conjunct2,
        THEN conjunct1, rule_format, OF conjI [OF 4 web], of "''sidecar''"]
    by (simp add: mk_pod_def)
  have probed: "NewSPDYExecutorCall ''POST'' (exec_req ''apps'' ''web'' ''scratch'' ''whoami'') \<in> set ?new"
    by (simp add: demo_new_calls)
  have 7: "\<lparr>Namespace = ''apps'', PodName = ''web'', Container = ''scratch'', CommandExec = ''whoami''\<rparr>
       \<in> set (fst (snd (fst (findContainersWithErrors demo_clientset demo_config io_empty))))"
    using t [THEN conjunct2, THEN conjunct2, THEN conjunct2, THEN conjunct2, THEN conjunct2,
        THEN conjunct2, rule_format, OF conjI [OF probed demo_exec_scratch], THEN conjunct1] .
  show ?thesis
    using fatal 2 3 4 5 6 7 by (intro conjI) simp_all
qed

section \<open>The end-to-end scenario\<close>

text \<open>
  Claim C4. In every cluster whose namespaces are \<open>default\<close> and \<open>kube-system\<close>, where
  \<open>default\<close> holds the one pod \<open>busybox-pod\<close> with the one container \<open>busybox\<close>
  whose probe writes \<open>root\<close> and a newline, the traversal returns the one record of
  that container as \<^verbatim>\<open>rootContainers\<close>, no \<^verbatim>\<open>errorContainers\<close> and no error. It
  makes five calls, and none of them is against \<open>kube-system\<close>, whatever that
  namespace holds.
\<close>

theorem end_to_end_scenario:
  assumes "Namespaces_List cs = Inr [\<lparr>ns_Name = ''default''\<rparr>, \<lparr>ns_Name = ''kube-system''\<rparr>]"
    and "Pods_List cs ''default'' = Inr [pod]"
    and "pod_Name pod = ''busybox-pod''"
    and "Pods_Get cs ''default'' ''busybox-pod'' = Inr p"
    and "map container_Name (Containers (pod_Spec p)) = [''busybox'']"
    and "NewSPDYExecutor config ''POST'' (exec_req ''default'' ''busybox-pod'' ''busybox'' ''whoami'')
           = Inr exec"
    and "writes_Stdout exec = ''root'' @ [CHR 0x0A]"
    and "Stream_err exec = None"
  shows "findContainersWithErrors cs config s =
           (([\<lparr>Namespace = ''default'', PodName = ''busybox-pod'', Container = ''busybox'',
               CommandExec = ''whoami''\<rparr>], [], None),
            s\<lparr>calls := calls s @
               [NamespacesListCall,
                PodsListCall ''default'',
                PodsGetCall ''default'' ''busybox-pod'',
                NewSPDYExecutorCall ''POST'' (exec_req ''default'' ''busybox-pod'' ''busybox'' ''whoami''),
                StreamCall (exec_req ''default'' ''busybox-pod'' ''busybox'' ''whoami'')
                  stream_options]\<rparr>)
       \<and> Some ''kube-system''
           \<notin> set (map call_namespace (new_calls s (snd (findContainersWithErrors cs config s))))"
proof -
  have run: "findContainersWithErrors cs config s =
           (([\<lparr>Namespace = ''default'', PodName = ''busybox-pod'', Container = ''busybox'',
               CommandExec = ''whoami''\<rparr>], [], None),
            s\<lparr>calls := calls s @
               [NamespacesListCall,
                PodsListCall ''default'',
                PodsGetCall ''default'' ''busybox-pod'',
                NewSPDYExecutorCall ''POST'' (exec_req ''default'' ''busybox-pod'' ''busybox'' ''whoami''),
                StreamCall (exec_req ''default'' ''busybox-pod'' ''busybox'' ''whoami'')
                  stream_options]\<rparr>)"
    using assms
    by (simp add: findContainersWithErrors_def listNamespaces_eq visit_namespace_eq visit_pod_eq
        probe_container_def exec_eq call_def Let_def)
  show ?thesis
    unfolding run by (simp add: new_calls_def exec_req_def)
qed

text \<open>The scenario with a pod of its own in \<open>kube-system\<close>.\<close>

theorem end_to_end_scenario_witness:
  "findContainersWithErrors scenario_clientset scenario_config io_empty =
     (([\<lparr>Namespace = ''default'', PodName = ''busybox-pod'', Container = ''busybox'',
         CommandExec = ''whoami''\<rparr>], [], None),
      \<lparr>calls =
         [NamespacesListCall,
          PodsListCall ''default'',
          PodsGetCall ''default'' ''busybox-pod'',
          NewSPDYExecutorCall ''POST'' (exec_req ''default'' ''busybox-pod'' ''busybox'' ''whoami''),
          StreamCall (exec_req ''default'' ''busybox-pod'' ''busybox'' ''whoami'') stream_options],
       printed = []\<rparr>)
   \<and> Pods_List scenario_clientset ''kube-system'' = Inr [mk_pod ''coredns'' [] [''coredns'']]"
proof -
  have 1: "Namespaces_List scenario_clientset =
      Inr [\<lparr>ns_Name = ''default''\<rparr>, \<lparr>ns_Name = ''kube-system''\<rparr>]"
    by (simp add: scenario_clientset_def)
  have 2: "Pods_List scenario_clientset ''default'' = Inr [mk_pod ''busybox-pod'' [] [''busybox'']]"
    by (simp add: scenario_clientset_def)
  have 3: "pod_Name (mk_pod ''busybox-pod'' [] [''busybox'']) = ''busybox-pod''"
    by (simp add: mk_pod_def)
  have 4: "Pods_Get scenario_clientset ''default'' ''busybox-pod'' =
      Inr (mk_pod ''busybox-pod'' [] [''busybox''])"
    by (simp add: scenario_clientset_def)
  have 5: "map container_Name (Containers (pod_Spec (mk_pod ''busybox-pod'' [] [''busybox''])))
      = [''busybox'']"
    by (simp add: mk_pod_def)
  have 6: "NewSPDYExecutor scenario_config ''POST''
        (exec_req ''default'' ''busybox-pod'' ''busybox'' ''whoami'')
      = Inr \<lparr>writes_Stdout = ''root'' @ [CHR 0x0A], writes_Stderr = [], Stream_err = None\<rparr>"
    by (simp add: scenario_config_def)
  have 7: "writes_Stdout \<lparr>writes_Stdout = ''root'' @ [CHR 0x0A], writes_Stderr = [], Stream_err = None\<rparr>
      = ''root'' @ [CHR 0x0A]"
    by simp
  have 8: "Stream_err \<lparr>writes_Stdout = ''root'' @ [CHR 0x0A], writes_Stderr = [], Stream_err = None\<rparr>
      = None"
    by simp
  have "findContainersWithErrors scenario_clientset scenario_config io_empty =
     (([\<lparr>Namespace = ''default'', PodName = ''busybox-pod'', Container = ''busybox'',
         CommandExec = ''whoami''\<rparr>], [], None),
      io_empty\<lparr>calls := calls io_empty @
         [NamespacesListCall,
          PodsListCall ''default'',
          PodsGetCall ''default'' ''busybox-pod'',
          NewSPDYExecutorCall ''POST'' (exec_req ''default'' ''busybox-pod'' ''busybox'' ''whoami''),
          StreamCall (exec_req ''default'' ''busybox-pod'' ''busybox'' ''whoami'') stream_options]\<rparr>)"
    using end_to_end_scenario [OF 1 2 3 4 5 6 7 8, of io_empty] by (rule conjunct1)
  moreover have "Pods_List scenario_clientset ''kube-system'' = Inr [mk_pod ''coredns'' [] [''coredns'']]"
    by (simp add: scenario_clientset_def)
  ultimately show ?thesis
    by (simp add: io_empty_def)
qed

end
